theory Spec2Isabelle
  imports Main
begin

section \<open>Go values used by server/kapacitors.go\<close>

text \<open>
  A Go \<^verbatim>\<open>error\<close> is either the sentinel \<^verbatim>\<open>chronograf.ErrAlertNotFound\<close>, which the
  handlers compare against with \<^verbatim>\<open>==\<close>, or an error made from a message
  (\<^verbatim>\<open>fmt.Errorf\<close>, the errors of the standard library and of the stores).
  \<^verbatim>\<open>nil\<close> is \<open>None\<close> of \<open>error option\<close>. \<open>Error_string\<close> is the method \<^verbatim>\<open>Error()\<close>; the
  text of the sentinel is the one package \<^verbatim>\<open>chronograf\<close> declares for it, and no
  property below depends on it.
\<close>

datatype error = ErrAlertNotFound | Errorf string

fun Error_string :: "error \<Rightarrow> string" where
  "Error_string ErrAlertNotFound = ''alert not found''"
| "Error_string (Errorf msg) = msg"

text \<open>
  A Go slice is \<open>None\<close> when it is \<^verbatim>\<open>nil\<close> and \<open>Some xs\<close> otherwise, so that the
  \<^verbatim>\<open>nil\<close> slice and the empty slice \<^verbatim>\<open>make([]T, 0)\<close> are different values, as they
  are for \<^verbatim>\<open>== nil\<close> and for the JSON encoder. \<^verbatim>\<open>len\<close> of a \<^verbatim>\<open>nil\<close> slice is 0 and
  \<^verbatim>\<open>range\<close> over it runs no iteration.
\<close>

type_synonym 'a slice = "'a list option"

definition len :: "'a slice \<Rightarrow> nat" where
  "len s = (case s of None \<Rightarrow> 0 | Some xs \<Rightarrow> length xs)"

definition elems :: "'a slice \<Rightarrow> 'a list" where
  "elems s = (case s of None \<Rightarrow> [] | Some xs \<Rightarrow> xs)"

section \<open>The chronograf types the file uses\<close>

text \<open>
  Modelled from the spec: the struct declarations of package \<^verbatim>\<open>chronograf\<close>
  (\<^verbatim>\<open>AlertRule\<close>, \<^verbatim>\<open>QueryConfig\<close>, \<^verbatim>\<open>Field\<close>, \<^verbatim>\<open>GroupBy\<close>, \<^verbatim>\<open>KapacitorNode\<close>,
  \<^verbatim>\<open>KapacitorProperty\<close>, \<^verbatim>\<open>Server\<close>) and \<^verbatim>\<open>kapa.Task\<close>, which are not among the sources
  at hand. The records carry the fields that server/kapacitors.go reads or writes, with the
  types its expressions fix (\<^verbatim>\<open>make([]string, 0)\<close>, \<^verbatim>\<open>make(map[string][]string)\<close>,
  \<^verbatim>\<open>make([]chronograf.KapacitorNode, 0)\<close>, \<^verbatim>\<open>== ""\<close>, \<^verbatim>\<open>== nil\<close>), and the scalar fields the
  data model of the specification names. The slices hold struct values, not pointers. A
  field name that several structs share carries the struct as a suffix.
\<close>

record KapacitorProperty =
  Name_prop :: string
  Args_prop :: "string slice"

record KapacitorNode =
  Name_node :: string
  Args_node :: "string slice"
  Properties :: "KapacitorProperty slice"

record Field =
  Field_name :: string
  Funcs :: "string slice"

record GroupBy =
  Time_groupBy :: string
  Tags_groupBy :: "string slice"

record QueryConfig =
  ID_query :: string
  Database :: string
  Measurement :: string
  RetentionPolicy :: string
  Fields :: "Field slice"
  Tags :: "(string \<rightharpoonup> string list) option"
  GroupBy :: GroupBy

text \<open>\<^verbatim>\<open>Query\<close> is a pointer (\<^verbatim>\<open>rule.Query == nil\<close>): \<open>None\<close> is the nil pointer.\<close>

record AlertRule =
  ID :: string
  TICKScript_rule :: string
  Query :: "QueryConfig option"
  Every :: string
  Alerts :: "string slice"
  AlertNodes :: "KapacitorNode slice"
  Message :: string
  Trigger :: string
  Name :: string

record Server =
  ID_srv :: int
  SrcID :: int
  Name_srv :: string
  Username_srv :: string
  Password_srv :: string
  URL_srv :: string
  Active_srv :: bool

text \<open>
  \<^verbatim>\<open>kapa.Task\<close>, what the engine client returns from \<^verbatim>\<open>Create\<close> and \<^verbatim>\<open>Update\<close>: the fields
  the handlers read.
\<close>

record Task =
  Rule :: AlertRule
  TICKScript_task :: string
  Href_task :: string
  HrefOutput_task :: string

section \<open>Formatting and escaping\<close>

text \<open>
  The verb \<^verbatim>\<open>%d\<close> of \<^verbatim>\<open>fmt.Sprintf\<close> on a Go \<^verbatim>\<open>int\<close>: the decimal digits, most
  significant first, after a minus sign when the number is negative. A call such as
  \<^verbatim>\<open>fmt.Sprintf("%s/%d/kapacitors/%d", a, b, c)\<close> is then the concatenation
  \<open>a @ ''/'' @ fmt_d b @ ''/kapacitors/'' @ fmt_d c\<close>.
\<close>

fun digits :: "nat \<Rightarrow> string" where
  "digits n = (if 10 \<le> n then digits (n div 10) else []) @ [''0123456789'' ! (n mod 10)]"

declare digits.simps [simp del]

definition fmt_d :: "int \<Rightarrow> string" where
  "fmt_d i = (if i < 0 then CHR ''-'' # digits (nat (- i)) else digits (nat i))"

text \<open>
  \<^verbatim>\<open>url.QueryEscape\<close> of Go's \<^verbatim>\<open>net/url\<close>, which is \<^verbatim>\<open>escape\<close> in the mode
  \<^verbatim>\<open>encodeQueryComponent\<close>: letters, digits and \<^verbatim>\<open>- _ . ~\<close> stay, a space becomes \<^verbatim>\<open>+\<close>,
  and every other byte \<open>c\<close> becomes \<^verbatim>\<open>%\<close> followed by \<^verbatim>\<open>upperhex[c>>4]\<close> and
  \<^verbatim>\<open>upperhex[c&15]\<close>. The bytes 97 to 122 are \<^verbatim>\<open>a\<close> to \<^verbatim>\<open>z\<close>, 65 to 90 are \<^verbatim>\<open>A\<close> to
  \<^verbatim>\<open>Z\<close>, and 48 to 57 are \<^verbatim>\<open>0\<close> to \<^verbatim>\<open>9\<close>.
\<close>

definition upperhex :: string where
  "upperhex = ''0123456789ABCDEF''"

definition shouldEscape :: "char \<Rightarrow> bool" where
  "shouldEscape c =
     (let b = (of_char c :: nat) in
      if (97 \<le> b \<and> b \<le> 122) \<or> (65 \<le> b \<and> b \<le> 90) \<or> (48 \<le> b \<and> b \<le> 57) then False
      else if c \<in> {CHR ''-'', CHR ''_'', CHR ''.'', CHR ''~''} then False
      else True)"

fun escape :: "string \<Rightarrow> string" where
  "escape [] = []"
| "escape (c # s) =
     (if c = CHR '' '' then CHR ''+'' # escape s
      else if shouldEscape c then
        CHR ''%'' # upperhex ! ((of_char c :: nat) div 16)
          # upperhex ! ((of_char c :: nat) mod 16) # escape s
      else c # escape s)"

definition QueryEscape :: "string \<Rightarrow> string" where
  "QueryEscape s = escape s"

section \<open>The collaborators of the handlers\<close>

text \<open>
  The stores of the service and the engine client are interfaces implemented outside this
  file. Each is a record of the replies its methods give, as functions of the arguments
  the handler passes. \<^verbatim>\<open>SourcesStore.Get\<close> returns a source that every handler here
  discards, so only its error is kept.
\<close>

record Service =
  SourcesStore_Get :: "int \<Rightarrow> error option"
  ServersStore_Get :: "int \<Rightarrow> error + Server"
  ServersStore_Add :: "Server \<Rightarrow> error + Server"
  ServersStore_Update :: "Server \<Rightarrow> error option"
  ServersStore_Delete :: "Server \<Rightarrow> error option"

record Client =
  Get_client :: "string \<Rightarrow> error + AlertRule"
  Update_client :: "string \<Rightarrow> AlertRule \<Rightarrow> error + Task"
  All_client :: "error + AlertRule list"
  AllStatus_client :: "error + (string \<rightharpoonup> string)"
  Href :: "string \<Rightarrow> string"
  HrefOutput :: "string \<Rightarrow> string"

text \<open>
  The calls by which a handler changes a store or the engine, in the order it issues
  them: each handler returns them beside what it writes to the response.
\<close>

datatype call =
    Call_Add Server
  | Call_Update Server
  | Call_Delete Server
  | Call_Update_client string AlertRule

text \<open>
  What a handler writes: one of the helpers \<^verbatim>\<open>Error\<close>, \<^verbatim>\<open>notFound\<close>, \<^verbatim>\<open>invalidJSON\<close>,
  \<^verbatim>\<open>invalidData\<close>, \<^verbatim>\<open>unknownErrorWithMessage\<close>, \<^verbatim>\<open>encodeJSON\<close> with the arguments it
  is called with (the helpers themselves live elsewhere in the package), a bare
  \<^verbatim>\<open>w.WriteHeader\<close>, or nothing because the handler panicked on a nil pointer; and the
  headers added before.
\<close>

datatype 'a reply =
    Error nat string
  | notFound int
  | invalidJSON
  | invalidData error
  | unknownErrorWithMessage error
  | encodeJSON nat 'a
  | WriteHeader nat
  | panic

record 'a outcome =
  Header :: "(string \<times> string) list"
  reply :: "'a reply"
  calls :: "call list"

definition respond :: "'a reply \<Rightarrow> 'a outcome" where
  "respond r = \<lparr>Header = [], reply = r, calls = []\<rparr>"

section \<open>Kapacitor instances\<close>

record postKapacitorRequest =
  Name_post :: "string option"
  URL_post :: "string option"
  Username_post :: string
  Password_post :: string
  Active_post :: bool

text \<open>
  \<^verbatim>\<open>url.ParseRequestURI\<close> belongs to Go's standard library; the validators take it as the
  parameter \<open>ParseRequestURI\<close> and read the scheme of the URL it returns.
\<close>

record URL =
  Scheme :: string

definition Valid_post :: "(string \<Rightarrow> error + URL) \<Rightarrow> postKapacitorRequest \<Rightarrow> error option" where
  "Valid_post ParseRequestURI p =
     (case Name_post p of
        None \<Rightarrow> Some (Errorf ''name and url required'')
      | Some _ \<Rightarrow>
          (case URL_post p of
             None \<Rightarrow> Some (Errorf ''name and url required'')
           | Some u \<Rightarrow>
               (case ParseRequestURI u of
                  Inl err \<Rightarrow> Some (Errorf (''invalid source URI: '' @ Error_string err))
                | Inr url \<Rightarrow>
                    if length (Scheme url) = 0
                    then Some (Errorf ''Invalid URL; no URL scheme defined'')
                    else None)))"

record kapaLinks =
  Proxy :: string
  Self_kapa :: string
  Rules_kapa :: string

record kapacitor =
  ID_kapa :: int
  Name_kapa :: string
  URL_kapa :: string
  Username_kapa :: string
  Password_kapa :: string
  Active_kapa :: bool
  Links_kapa :: kapaLinks

text \<open>\<^verbatim>\<open>newKapacitor\<close> leaves \<^verbatim>\<open>Password\<close> at its zero value.\<close>

definition newKapacitor :: "Server \<Rightarrow> kapacitor" where
  "newKapacitor srv =
     (let httpAPISrcs = ''/chronograf/v1/sources'' in
      \<lparr>ID_kapa = ID_srv srv,
       Name_kapa = Name_srv srv,
       URL_kapa = URL_srv srv,
       Username_kapa = Username_srv srv,
       Password_kapa = '''',
       Active_kapa = Active_srv srv,
       Links_kapa =
         \<lparr>Proxy = httpAPISrcs @ ''/'' @ fmt_d (SrcID srv) @ ''/kapacitors/''
                    @ fmt_d (ID_srv srv) @ ''/proxy'',
          Self_kapa = httpAPISrcs @ ''/'' @ fmt_d (SrcID srv) @ ''/kapacitors/''
                    @ fmt_d (ID_srv srv),
          Rules_kapa = httpAPISrcs @ ''/'' @ fmt_d (SrcID srv) @ ''/kapacitors/''
                    @ fmt_d (ID_srv srv) @ ''/rules''\<rparr>\<rparr>)"

text \<open>
  The handlers take the outcome of \<^verbatim>\<open>paramID("kid", r)\<close> and \<^verbatim>\<open>paramID("id", r)\<close> and of
  decoding the body as arguments (\<open>Inl\<close> the error). The status codes are those of
  \<^verbatim>\<open>net/http\<close>: 200 OK, 201 Created, 204 No Content, 422 Unprocessable Entity,
  500 Internal Server Error.

  In \<^verbatim>\<open>NewKapacitor\<close> the message given to \<^verbatim>\<open>unknownErrorWithMessage\<close> prints the request
  with \<^verbatim>\<open>%v\<close>, pointers included; the model hands over the store's error alone.
  \<^verbatim>\<open>*req.Name\<close> and \<^verbatim>\<open>*req.URL\<close> dereference pointers: on a nil pointer the handler
  would panic, and \<^verbatim>\<open>ID\<close> of the new server is the zero value until the store assigns
  one.
\<close>

definition NewKapacitor ::
  "Service \<Rightarrow> (string \<Rightarrow> error + URL) \<Rightarrow> error + int \<Rightarrow> error + postKapacitorRequest
     \<Rightarrow> kapacitor outcome" where
  "NewKapacitor h ParseRequestURI id_param body =
     (case id_param of
        Inl err \<Rightarrow> respond (Error 422 (Error_string err))
      | Inr srcID \<Rightarrow>
          (case SourcesStore_Get h srcID of
             Some err \<Rightarrow> respond (notFound srcID)
           | None \<Rightarrow>
               (case body of
                  Inl err \<Rightarrow> respond invalidJSON
                | Inr req \<Rightarrow>
                    (case Valid_post ParseRequestURI req of
                       Some err \<Rightarrow> respond (invalidData err)
                     | None \<Rightarrow>
                         (case (Name_post req, URL_post req) of
                            (Some name, Some url) \<Rightarrow>
                              (let srv = \<lparr>ID_srv = 0,
                                          SrcID = srcID,
                                          Name_srv = name,
                                          Username_srv = Username_post req,
                                          Password_srv = Password_post req,
                                          URL_srv = url,
                                          Active_srv = Active_post req\<rparr>
                               in case ServersStore_Add h srv of
                                    Inl err \<Rightarrow>
                                      \<lparr>Header = [], reply = unknownErrorWithMessage err,
                                       calls = [Call_Add srv]\<rparr>
                                  | Inr srv' \<Rightarrow>
                                      (let res = newKapacitor srv' in
                                       \<lparr>Header = [(''Location'', Self_kapa (Links_kapa res))],
                                        reply = encodeJSON 201 res,
                                        calls = [Call_Add srv]\<rparr>))
                          | _ \<Rightarrow> respond panic)))))"

definition KapacitorsID :: "Service \<Rightarrow> error + int \<Rightarrow> error + int \<Rightarrow> kapacitor outcome" where
  "KapacitorsID h kid_param id_param =
     (case kid_param of
        Inl err \<Rightarrow> respond (Error 422 (Error_string err))
      | Inr kid \<Rightarrow>
          (case id_param of
             Inl err \<Rightarrow> respond (Error 422 (Error_string err))
           | Inr srcID \<Rightarrow>
               (case ServersStore_Get h kid of
                  Inl err \<Rightarrow> respond (notFound kid)
                | Inr srv \<Rightarrow>
                    if SrcID srv \<noteq> srcID then respond (notFound kid)
                    else respond (encodeJSON 200 (newKapacitor srv)))))"

definition RemoveKapacitor :: "Service \<Rightarrow> error + int \<Rightarrow> error + int \<Rightarrow> unit outcome" where
  "RemoveKapacitor h kid_param id_param =
     (case kid_param of
        Inl err \<Rightarrow> respond (Error 422 (Error_string err))
      | Inr kid \<Rightarrow>
          (case id_param of
             Inl err \<Rightarrow> respond (Error 422 (Error_string err))
           | Inr srcID \<Rightarrow>
               (case ServersStore_Get h kid of
                  Inl err \<Rightarrow> respond (notFound kid)
                | Inr srv \<Rightarrow>
                    if SrcID srv \<noteq> srcID then respond (notFound kid)
                    else (case ServersStore_Delete h srv of
                            Some err \<Rightarrow>
                              \<lparr>Header = [], reply = unknownErrorWithMessage err,
                               calls = [Call_Delete srv]\<rparr>
                          | None \<Rightarrow>
                              \<lparr>Header = [], reply = WriteHeader 204,
                               calls = [Call_Delete srv]\<rparr>))))"

record patchKapacitorRequest =
  Name_patch :: "string option"
  URL_patch :: "string option"
  Username_patch :: "string option"
  Password_patch :: "string option"
  Active_patch :: "bool option"

definition Valid_patch :: "(string \<Rightarrow> error + URL) \<Rightarrow> patchKapacitorRequest \<Rightarrow> error option" where
  "Valid_patch ParseRequestURI p =
     (case URL_patch p of
        None \<Rightarrow> None
      | Some u \<Rightarrow>
          (case ParseRequestURI u of
             Inl err \<Rightarrow> Some (Errorf (''invalid source URI: '' @ Error_string err))
           | Inr url \<Rightarrow>
               if length (Scheme url) = 0
               then Some (Errorf ''Invalid URL; no URL scheme defined'')
               else None))"

text \<open>
  The five assignments of \<^verbatim>\<open>UpdateKapacitor\<close> to the server it read from the store, in
  the order of the source (name, URL, password, username, active).
\<close>

definition UpdateKapacitor_assign :: "patchKapacitorRequest \<Rightarrow> Server \<Rightarrow> Server" where
  "UpdateKapacitor_assign req srv =
     (let srv = (case Name_patch req of None \<Rightarrow> srv | Some v \<Rightarrow> srv\<lparr>Name_srv := v\<rparr>);
          srv = (case URL_patch req of None \<Rightarrow> srv | Some v \<Rightarrow> srv\<lparr>URL_srv := v\<rparr>);
          srv = (case Password_patch req of None \<Rightarrow> srv | Some v \<Rightarrow> srv\<lparr>Password_srv := v\<rparr>);
          srv = (case Username_patch req of None \<Rightarrow> srv | Some v \<Rightarrow> srv\<lparr>Username_srv := v\<rparr>);
          srv = (case Active_patch req of None \<Rightarrow> srv | Some v \<Rightarrow> srv\<lparr>Active_srv := v\<rparr>)
      in srv)"

definition UpdateKapacitor ::
  "Service \<Rightarrow> (string \<Rightarrow> error + URL) \<Rightarrow> error + int \<Rightarrow> error + int
     \<Rightarrow> error + patchKapacitorRequest \<Rightarrow> kapacitor outcome" where
  "UpdateKapacitor h ParseRequestURI kid_param id_param body =
     (case kid_param of
        Inl err \<Rightarrow> respond (Error 422 (Error_string err))
      | Inr kid \<Rightarrow>
          (case id_param of
             Inl err \<Rightarrow> respond (Error 422 (Error_string err))
           | Inr srcID \<Rightarrow>
               (case ServersStore_Get h kid of
                  Inl err \<Rightarrow> respond (notFound kid)
                | Inr srv \<Rightarrow>
                    if SrcID srv \<noteq> srcID then respond (notFound kid)
                    else (case body of
                            Inl err \<Rightarrow> respond invalidJSON
                          | Inr req \<Rightarrow>
                              (case Valid_patch ParseRequestURI req of
                                 Some err \<Rightarrow> respond (invalidData err)
                               | None \<Rightarrow>
                                   (let srv = UpdateKapacitor_assign req srv in
                                    case ServersStore_Update h srv of
                                      Some err \<Rightarrow>
                                        \<lparr>Header = [],
                                         reply = Error 500 (''Error updating kapacitor ID '' @ fmt_d kid),
                                         calls = [Call_Update srv]\<rparr>
                                    | None \<Rightarrow>
                                        \<lparr>Header = [],
                                         reply = encodeJSON 200 (newKapacitor srv),
                                         calls = [Call_Update srv]\<rparr>))))))"

section \<open>Rule responses\<close>

record alertLinks =
  Self :: string
  Kapacitor :: string
  Output :: string

text \<open>
  \<^verbatim>\<open>alertResponse\<close> embeds \<^verbatim>\<open>chronograf.AlertRule\<close>: the record extends \<open>AlertRule\<close>, so
  that \<^verbatim>\<open>res.Alerts\<close>, \<^verbatim>\<open>res.Query\<close> and \<^verbatim>\<open>res.ID\<close> are the fields of the rule.
\<close>

record alertResponse = AlertRule +
  TICKScript :: string
  Status :: string
  Links :: alertLinks

text \<open>
  The three \<^verbatim>\<open>for _, x := range xs\<close> loops of \<^verbatim>\<open>newAlertResponse\<close>. In Go the loop
  variable is a copy of the element: the body assigns to fields of that copy, and nothing
  stores the copy back in the slice. Each body below is the function from the copy at
  the start of an iteration to the copy at its end; each loop runs the body on every
  element and carries on with the value that holds the slice, which no assignment of the
  body reaches.
\<close>

definition Properties_body :: "KapacitorProperty \<Rightarrow> KapacitorProperty" where
  "Properties_body p = (if Args_prop p = None then p\<lparr>Args_prop := Some []\<rparr> else p)"

fun Properties_range :: "KapacitorNode \<Rightarrow> KapacitorProperty list \<Rightarrow> KapacitorNode" where
  "Properties_range n [] = n"
| "Properties_range n (p # ps) = (let p' = Properties_body p in Properties_range n ps)"

definition AlertNodes_body :: "KapacitorNode \<Rightarrow> KapacitorNode" where
  "AlertNodes_body n =
     (let n = (if Args_node n = None then n\<lparr>Args_node := Some []\<rparr> else n);
          n = (if Properties n = None then n\<lparr>Properties := Some []\<rparr> else n)
      in Properties_range n (elems (Properties n)))"

fun AlertNodes_range :: "alertResponse \<Rightarrow> KapacitorNode list \<Rightarrow> alertResponse" where
  "AlertNodes_range res [] = res"
| "AlertNodes_range res (n # ns) = (let n' = AlertNodes_body n in AlertNodes_range res ns)"

definition Fields_body :: "Field \<Rightarrow> Field" where
  "Fields_body f = (if Funcs f = None then f\<lparr>Funcs := Some []\<rparr> else f)"

fun Fields_range :: "QueryConfig \<Rightarrow> Field list \<Rightarrow> QueryConfig" where
  "Fields_range q [] = q"
| "Fields_range q (f # fs) = (let f' = Fields_body f in Fields_range q fs)"

text \<open>
  The block of \<^verbatim>\<open>newAlertResponse\<close> under \<^verbatim>\<open>res.Query != nil\<close>, as a function of
  \<^verbatim>\<open>res.ID\<close> and of the query \<^verbatim>\<open>res.Query\<close> points to: the assignments write through
  the pointer, and the function returns the query as it stands after them.
\<close>

definition Query_block :: "string \<Rightarrow> QueryConfig \<Rightarrow> QueryConfig" where
  "Query_block res_ID q =
     (let q = (if ID_query q = '''' then q\<lparr>ID_query := res_ID\<rparr> else q);
          q = (if Fields q = None then q\<lparr>Fields := Some []\<rparr> else q);
          q = Fields_range q (elems (Fields q));
          q = (if Tags_groupBy (GroupBy q) = None
               then q\<lparr>GroupBy := (GroupBy q)\<lparr>Tags_groupBy := Some []\<rparr>\<rparr> else q);
          q = (if Tags q = None then q\<lparr>Tags := Some Map.empty\<rparr> else q)
      in q)"

definition newAlertResponse ::
  "AlertRule \<Rightarrow> string \<Rightarrow> string \<Rightarrow> string \<Rightarrow> string \<Rightarrow> int \<Rightarrow> int \<Rightarrow> alertResponse" where
  "newAlertResponse rule tickScript href hrefOutput status srcID kapaID =
     (let res = AlertRule.extend rule
                  (alertResponse.fields tickScript status
                     \<lparr>Self = ''/chronograf/v1/sources/'' @ fmt_d srcID @ ''/kapacitors/''
                              @ fmt_d kapaID @ ''/rules/'' @ ID rule,
                      Kapacitor = ''/chronograf/v1/sources/'' @ fmt_d srcID @ ''/kapacitors/''
                              @ fmt_d kapaID @ ''/proxy?path='' @ QueryEscape href,
                      Output = ''/chronograf/v1/sources/'' @ fmt_d srcID @ ''/kapacitors/''
                              @ fmt_d kapaID @ ''/proxy?path='' @ QueryEscape hrefOutput\<rparr>);
          res = (if Alerts res = None then res\<lparr>Alerts := Some []\<rparr> else res);
          res = (if AlertNodes res = None then res\<lparr>AlertNodes := Some []\<rparr> else res);
          res = AlertNodes_range res (elems (AlertNodes res))
      in case Query res of
           None \<Rightarrow> res
         | Some q \<Rightarrow> res\<lparr>Query := Some (Query_block (ID res) q)\<rparr>)"

section \<open>Rule validation\<close>

text \<open>
  The loop of \<^verbatim>\<open>ValidRuleRequest\<close> over \<^verbatim>\<open>rule.Query.Fields\<close>: it sets \<^verbatim>\<open>hasFuncs\<close> and
  breaks at the first field with \<^verbatim>\<open>len(f.Funcs) > 0\<close>; \<^verbatim>\<open>hasFuncs\<close> starts as false.
\<close>

fun hasFuncs :: "Field list \<Rightarrow> bool" where
  "hasFuncs [] = False"
| "hasFuncs (f # fs) = (if len (Funcs f) > 0 then True else hasFuncs fs)"

definition ValidRuleRequest :: "AlertRule \<Rightarrow> error option" where
  "ValidRuleRequest rule =
     (case Query rule of
        None \<Rightarrow> Some (Errorf ''invalid alert rule: no query defined'')
      | Some q \<Rightarrow>
          if Every rule = '''' \<and> hasFuncs (elems (Fields q))
          then Some (Errorf ''invalid alert rule: functions require an \"every\" window'')
          else None)"

section \<open>Status validation\<close>

record KapacitorStatus =
  Status_req :: string

definition Valid_status :: "KapacitorStatus \<Rightarrow> error option" where
  "Valid_status k =
     (if Status_req k = ''enabled'' \<or> Status_req k = ''disabled'' then None
      else Some (Errorf (''Invalid Kapacitor status: '' @ Status_req k)))"

section \<open>Rule handlers\<close>

text \<open>
  \<^verbatim>\<open>kapa.NewClient(srv.URL, srv.Username, srv.Password)\<close> is the parameter \<open>NewClient\<close>:
  the client of the engine behind the resolved instance.
\<close>

definition KapacitorRulesPut ::
  "Service \<Rightarrow> (string \<Rightarrow> string \<Rightarrow> string \<Rightarrow> Client) \<Rightarrow> error + int \<Rightarrow> error + int \<Rightarrow> string
     \<Rightarrow> error + AlertRule \<Rightarrow> alertResponse outcome" where
  "KapacitorRulesPut h NewClient kid_param id_param tid body =
     (case kid_param of
        Inl err \<Rightarrow> respond (Error 422 (Error_string err))
      | Inr kid \<Rightarrow>
          (case id_param of
             Inl err \<Rightarrow> respond (Error 422 (Error_string err))
           | Inr srcID \<Rightarrow>
               (case ServersStore_Get h kid of
                  Inl err \<Rightarrow> respond (notFound kid)
                | Inr srv \<Rightarrow>
                    if SrcID srv \<noteq> srcID then respond (notFound kid)
                    else
                      (let c = NewClient (URL_srv srv) (Username_srv srv) (Password_srv srv) in
                       case body of
                         Inl err \<Rightarrow> respond invalidJSON
                       | Inr req \<Rightarrow>
                           (case Get_client c tid of
                              Inl err \<Rightarrow>
                                if err = ErrAlertNotFound then respond (notFound kid)
                                else respond (Error 500 (Error_string err))
                            | Inr _ \<Rightarrow>
                                (let req = req\<lparr>ID := tid\<rparr> in
                                 case Update_client c (Href c tid) req of
                                   Inl err \<Rightarrow>
                                     \<lparr>Header = [], reply = Error 500 (Error_string err),
                                      calls = [Call_Update_client (Href c tid) req]\<rparr>
                                 | Inr task \<Rightarrow>
                                     \<lparr>Header = [],
                                      reply = encodeJSON 200
                                        (newAlertResponse (Rule task) (TICKScript_task task)
                                           (Href_task task) (HrefOutput_task task) ''enabled''
                                           (SrcID srv) (ID_srv srv)),
                                      calls = [Call_Update_client (Href c tid) req]\<rparr>))))))"

record allAlertsResponse =
  Rules :: "alertResponse slice"

text \<open>Go's \<^verbatim>\<open>append(s, x)\<close>: the result is never \<^verbatim>\<open>nil\<close>.\<close>

definition append_slice :: "'a slice \<Rightarrow> 'a \<Rightarrow> 'a slice" where
  "append_slice s x = Some (elems s @ [x])"

text \<open>
  The loop of \<^verbatim>\<open>KapacitorRulesGet\<close> over the rules \<^verbatim>\<open>c.All\<close> returned, in the order in
  which \<^verbatim>\<open>range\<close> visits them: a rule whose kid has no entry in \<^verbatim>\<open>statuses\<close> is skipped
  (\<^verbatim>\<open>continue\<close>), any other is translated and appended to \<^verbatim>\<open>res.Rules\<close>.
\<close>

fun rules_range ::
  "Client \<Rightarrow> (string \<rightharpoonup> string) \<Rightarrow> Server \<Rightarrow> allAlertsResponse \<Rightarrow> AlertRule list
     \<Rightarrow> allAlertsResponse" where
  "rules_range c statuses srv res [] = res"
| "rules_range c statuses srv res (rule # rules) =
     (case statuses (ID rule) of
        None \<Rightarrow> rules_range c statuses srv res rules
      | Some status \<Rightarrow>
          (let ar = newAlertResponse rule (TICKScript_rule rule) (Href c (ID rule))
                      (HrefOutput c (ID rule)) status (SrcID srv) (ID_srv srv)
           in rules_range c statuses srv (res\<lparr>Rules := append_slice (Rules res) ar\<rparr>) rules))"

definition KapacitorRulesGet ::
  "Service \<Rightarrow> (string \<Rightarrow> string \<Rightarrow> string \<Rightarrow> Client) \<Rightarrow> error + int \<Rightarrow> error + int
     \<Rightarrow> allAlertsResponse outcome" where
  "KapacitorRulesGet h NewClient kid_param id_param =
     (case kid_param of
        Inl err \<Rightarrow> respond (Error 422 (Error_string err))
      | Inr kid \<Rightarrow>
          (case id_param of
             Inl err \<Rightarrow> respond (Error 422 (Error_string err))
           | Inr srcID \<Rightarrow>
               (case ServersStore_Get h kid of
                  Inl err \<Rightarrow> respond (notFound kid)
                | Inr srv \<Rightarrow>
                    if SrcID srv \<noteq> srcID then respond (notFound kid)
                    else
                      (let c = NewClient (URL_srv srv) (Username_srv srv) (Password_srv srv) in
                       case All_client c of
                         Inl err \<Rightarrow> respond (Error 500 (Error_string err))
                       | Inr rules \<Rightarrow>
                           (case AllStatus_client c of
                              Inl err \<Rightarrow> respond (Error 500 (Error_string err))
                            | Inr statuses \<Rightarrow>
                                respond (encodeJSON 200
                                  (rules_range c statuses srv \<lparr>Rules = Some []\<rparr> rules)))))))"

section \<open>Example values\<close>

text \<open>
  The instance of the end-to-end example: \<open>kapa1\<close> at \<^verbatim>\<open>http://localhost:9092\<close> under
  source 1, stored with id 5; a service that knows source 1 and this one instance and whose
  store gives id 5 to a server it adds; and a parser that returns the scheme \<^verbatim>\<open>http\<close>
  for that URL, as Go's does, and an error for anything else.
\<close>

definition example_srv :: Server where
  "example_srv =
     \<lparr>ID_srv = 5, SrcID = 1, Name_srv = ''kapa1'', Username_srv = ''admin'',
      Password_srv = ''secret'', URL_srv = ''http://localhost:9092'', Active_srv = True\<rparr>"

definition example_service :: Service where
  "example_service =
     \<lparr>SourcesStore_Get = (\<lambda>i. if i = 1 then None else Some (Errorf ''source not found'')),
      ServersStore_Get = (\<lambda>i. if i = 5 then Inr example_srv else Inl (Errorf ''server not found'')),
      ServersStore_Add = (\<lambda>s. Inr (s\<lparr>ID_srv := 5\<rparr>)),
      ServersStore_Update = (\<lambda>s. None),
      ServersStore_Delete = (\<lambda>s. None)\<rparr>"

definition empty_service :: Service where
  "empty_service =
     \<lparr>SourcesStore_Get = (\<lambda>i. Some (Errorf ''source not found'')),
      ServersStore_Get = (\<lambda>i. Inl (Errorf ''server not found'')),
      ServersStore_Add = (\<lambda>s. Inl (Errorf ''store closed'')),
      ServersStore_Update = (\<lambda>s. Some (Errorf ''server not found'')),
      ServersStore_Delete = (\<lambda>s. Some (Errorf ''server not found''))\<rparr>"

definition example_ParseRequestURI :: "string \<Rightarrow> error + URL" where
  "example_ParseRequestURI u =
     (if u = ''http://localhost:9092'' then Inr \<lparr>Scheme = ''http''\<rparr>
      else Inl (Errorf ''invalid URI for request''))"

text \<open>A rule whose query carries the rule's own id, and requests to create an instance.\<close>

definition example_query :: QueryConfig where
  "example_query =
     \<lparr>ID_query = ''r1'', Database = ''telegraf'', Measurement = ''cpu'',
      RetentionPolicy = ''autogen'', Fields = None, Tags = None,
      GroupBy = \<lparr>Time_groupBy = '''', Tags_groupBy = None\<rparr>\<rparr>"

definition example_rule :: AlertRule where
  "example_rule =
     \<lparr>ID = ''r1'', TICKScript_rule = '''', Query = Some example_query, Every = '''',
      Alerts = None, AlertNodes = None, Message = '''', Trigger = ''threshold'',
      Name = ''cpu high''\<rparr>"

text \<open>
  A rule as the JSON body
  \<^verbatim>\<open>{"id":"r2","query":{"fields":[{"field":"usage_user"}]},
    "alertNodes":[{"name":"slack","properties":[{"name":"channel"}]}]}\<close>
  decodes: the \<^verbatim>\<open>args\<close> of the node and of its property and the \<^verbatim>\<open>funcs\<close> of the field
  are absent, so the slices are \<^verbatim>\<open>nil\<close>.
\<close>

definition sparse_query :: QueryConfig where
  "sparse_query =
     \<lparr>ID_query = '''', Database = '''', Measurement = '''', RetentionPolicy = '''',
      Fields = Some [\<lparr>Field_name = ''usage_user'', Funcs = None\<rparr>],
      Tags = None,
      GroupBy = \<lparr>Time_groupBy = '''', Tags_groupBy = None\<rparr>\<rparr>"

definition sparse_rule :: AlertRule where
  "sparse_rule =
     \<lparr>ID = ''r2'', TICKScript_rule = '''',
      Query = Some sparse_query,
      Every = '''', Alerts = None,
      AlertNodes = Some [\<lparr>Name_node = ''slack'', Args_node = None,
                          Properties = Some [\<lparr>Name_prop = ''channel'', Args_prop = None\<rparr>]\<rparr>],
      Message = '''', Trigger = '''', Name = ''''\<rparr>"

text \<open>
  The rule of the end-to-end example, a field with \<^verbatim>\<open>funcs: ["mean"]\<close>, with the
  \<^verbatim>\<open>every\<close> given.
\<close>

definition mean_query :: QueryConfig where
  "mean_query =
     \<lparr>ID_query = '''', Database = '''', Measurement = '''', RetentionPolicy = '''',
      Fields = Some [\<lparr>Field_name = ''usage_user'', Funcs = Some [''mean'']\<rparr>],
      Tags = None,
      GroupBy = \<lparr>Time_groupBy = '''', Tags_groupBy = None\<rparr>\<rparr>"

definition mean_rule :: "string \<Rightarrow> AlertRule" where
  "mean_rule every =
     \<lparr>ID = ''r3'', TICKScript_rule = '''',
      Query = Some mean_query,
      Every = every, Alerts = None, AlertNodes = None,
      Message = '''', Trigger = '''', Name = ''''\<rparr>"

definition unnamed_request :: postKapacitorRequest where
  "unnamed_request =
     \<lparr>Name_post = Some '''', URL_post = Some ''http://localhost:9092'',
      Username_post = '''', Password_post = '''', Active_post = False\<rparr>"

definition kapa1_request :: postKapacitorRequest where
  "kapa1_request =
     \<lparr>Name_post = Some ''kapa1'', URL_post = Some ''http://localhost:9092'',
      Username_post = '''', Password_post = '''', Active_post = False\<rparr>"

definition schemeless_request :: postKapacitorRequest where
  "schemeless_request =
     \<lparr>Name_post = Some ''kapa1'', URL_post = Some ''localhost'',
      Username_post = '''', Password_post = '''', Active_post = False\<rparr>"

definition example_patch :: patchKapacitorRequest where
  "example_patch =
     \<lparr>Name_patch = Some ''kapa2'', URL_patch = None, Username_patch = None,
      Password_patch = Some ''pw'', Active_patch = Some False\<rparr>"

text \<open>A patch with a new name and a URL that the example parser refuses.\<close>

definition bad_url_patch :: patchKapacitorRequest where
  "bad_url_patch =
     \<lparr>Name_patch = Some ''kapa2'', URL_patch = Some ''localhost'', Username_patch = None,
      Password_patch = None, Active_patch = None\<rparr>"

text \<open>
  A client of an engine with two tasks, \<open>r1\<close> and \<open>r3\<close>, of which only \<open>r1\<close> has a
  status; its update answers with the rule it was given. The second client is the same
  but for its update, which refuses every rule whose id is not \<open>r1\<close>.
\<close>

definition example_client :: Client where
  "example_client =
     \<lparr>Get_client = (\<lambda>tid. if tid = ''r1'' then Inr example_rule else Inl ErrAlertNotFound),
      Update_client = (\<lambda>href rule. Inr \<lparr>Rule = rule, TICKScript_task = '''',
                                          Href_task = href,
                                          HrefOutput_task = href @ ''/output''\<rparr>),
      All_client = Inr [example_rule, mean_rule ''1m''],
      AllStatus_client = Inr [''r1'' \<mapsto> ''enabled''],
      Href = (\<lambda>tid. ''/kapacitor/v1/tasks/'' @ tid),
      HrefOutput = (\<lambda>tid. ''/kapacitor/v1/tasks/'' @ tid @ ''/output'')\<rparr>"

definition strict_client :: Client where
  "strict_client =
     example_client
       \<lparr>Update_client := (\<lambda>href rule. if ID rule = ''r1'' then Update_client example_client href rule
                                       else Inl (Errorf ''no such task''))\<rparr>"

section \<open>The links as the specification writes them\<close>

text \<open>
  The specification's templates, to compare the links of the code with: the self link of an
  instance, \<^verbatim>\<open>/chronograf/v1/sources/{sourceId}/kapacitors/{id}\<close>, and the proxy route
  \<^verbatim>\<open>/sources/{sourceId}/kapacitors/{instanceId}/proxy?path={percent-encoded href}\<close>.
  \<open>query_safe\<close> holds of the bytes a percent-encoded query component is made of.
\<close>

definition spec_instance_self :: "int \<Rightarrow> int \<Rightarrow> string" where
  "spec_instance_self sourceId instanceId =
     ''/chronograf/v1/sources/'' @ fmt_d sourceId @ ''/kapacitors/'' @ fmt_d instanceId"

definition spec_proxy_route :: "int \<Rightarrow> int \<Rightarrow> string \<Rightarrow> string" where
  "spec_proxy_route sourceId instanceId href =
     ''/sources/'' @ fmt_d sourceId @ ''/kapacitors/'' @ fmt_d instanceId
       @ ''/proxy?path='' @ QueryEscape href"

definition query_safe :: "char \<Rightarrow> bool" where
  "query_safe c =
     (c \<in> set ''abcdefghijklmnopqrstuvwxyzABCDEFGHIJKLMNOPQRSTUVWXYZ0123456789-_.~+%'')"

section \<open>The loops of the translator\<close>

lemma Properties_range_keeps: "Properties_range n ps = n"
  by (induction ps) simp_all

lemma AlertNodes_range_keeps: "AlertNodes_range res ns = res"
  by (induction ns) simp_all

lemma Fields_range_keeps: "Fields_range q fs = q"
  by (induction fs) simp_all

lemma Query_block_fields:
  "ID_query (Query_block i q) = (if ID_query q = '''' then i else ID_query q)"
  "Fields (Query_block i q) = Some (elems (Fields q))"
  "Tags_groupBy (GroupBy (Query_block i q)) = Some (elems (Tags_groupBy (GroupBy q)))"
  "Tags (Query_block i q) = Some (case Tags q of None \<Rightarrow> Map.empty | Some m \<Rightarrow> m)"
  "Time_groupBy (GroupBy (Query_block i q)) = Time_groupBy (GroupBy q)"
  "Database (Query_block i q) = Database q"
  "Measurement (Query_block i q) = Measurement q"
  "RetentionPolicy (Query_block i q) = RetentionPolicy q"
  by (simp_all add: Query_block_def Let_def Fields_range_keeps elems_def split: option.splits)

lemma newAlertResponse_unfold:
  "newAlertResponse rule t h ho st s k =
     (AlertRule.extend rule
        (alertResponse.fields t st
           \<lparr>Self = ''/chronograf/v1/sources/'' @ fmt_d s @ ''/kapacitors/'' @ fmt_d k
                    @ ''/rules/'' @ ID rule,
            Kapacitor = ''/chronograf/v1/sources/'' @ fmt_d s @ ''/kapacitors/'' @ fmt_d k
                    @ ''/proxy?path='' @ QueryEscape h,
            Output = ''/chronograf/v1/sources/'' @ fmt_d s @ ''/kapacitors/'' @ fmt_d k
                    @ ''/proxy?path='' @ QueryEscape ho\<rparr>))
     \<lparr>Alerts := Some (elems (Alerts rule)),
      AlertNodes := Some (elems (AlertNodes rule)),
      Query := map_option (Query_block (ID rule)) (Query rule)\<rparr>"
proof -
  have a: "(if Alerts r = None then r\<lparr>Alerts := Some []\<rparr> else r)
             = r\<lparr>Alerts := Some (elems (Alerts r))\<rparr>" for r :: alertResponse
    by (cases "Alerts r") (simp_all add: elems_def)
  have n: "(if AlertNodes r = None then r\<lparr>AlertNodes := Some []\<rparr> else r)
             = r\<lparr>AlertNodes := Some (elems (AlertNodes r))\<rparr>" for r :: alertResponse
    by (cases "AlertNodes r") (simp_all add: elems_def)
  have q: "(case Query r of None \<Rightarrow> r | Some q \<Rightarrow> r\<lparr>Query := Some (Query_block (ID r) q)\<rparr>)
             = r\<lparr>Query := map_option (Query_block (ID r)) (Query r)\<rparr>" for r :: alertResponse
    by (cases "Query r") simp_all
  show ?thesis
    unfolding newAlertResponse_def Let_def AlertNodes_range_keeps a n q
    by (simp add: AlertRule.extend_def)
qed

lemma newAlertResponse_Query:
  "Query (newAlertResponse rule t h ho st s k) = map_option (Query_block (ID rule)) (Query rule)"
  by (simp add: newAlertResponse_unfold)

lemma newAlertResponse_AlertNodes:
  "AlertNodes (newAlertResponse rule t h ho st s k) = Some (elems (AlertNodes rule))"
  by (simp add: newAlertResponse_unfold)

lemma newAlertResponse_Alerts:
  "Alerts (newAlertResponse rule t h ho st s k) = Some (elems (Alerts rule))"
  by (simp add: newAlertResponse_unfold)

lemma newAlertResponse_Links:
  "Links (newAlertResponse rule t h ho st s k) =
     \<lparr>Self = ''/chronograf/v1/sources/'' @ fmt_d s @ ''/kapacitors/'' @ fmt_d k
              @ ''/rules/'' @ ID rule,
      Kapacitor = ''/chronograf/v1/sources/'' @ fmt_d s @ ''/kapacitors/'' @ fmt_d k
              @ ''/proxy?path='' @ QueryEscape h,
      Output = ''/chronograf/v1/sources/'' @ fmt_d s @ ''/kapacitors/'' @ fmt_d k
              @ ''/proxy?path='' @ QueryEscape ho\<rparr>"
  by (simp add: newAlertResponse_unfold AlertRule.extend_def alertResponse.fields_def)

lemma newAlertResponse_ID: "ID (newAlertResponse rule t h ho st s k) = ID rule"
  by (simp add: newAlertResponse_unfold AlertRule.extend_def)

lemma newAlertResponse_Status: "Status (newAlertResponse rule t h ho st s k) = st"
  by (simp add: newAlertResponse_unfold AlertRule.extend_def alertResponse.fields_def)

text \<open>
  What the translator does normalise: \<^verbatim>\<open>alerts\<close> and \<^verbatim>\<open>alertNodes\<close> of the response are
  never \<^verbatim>\<open>nil\<close>, and under a present query neither are \<^verbatim>\<open>fields\<close>, \<^verbatim>\<open>groupBy.tags\<close> and
  \<^verbatim>\<open>tags\<close>.
\<close>

lemma newAlertResponse_top_level_not_nil:
  "Alerts (newAlertResponse rule t h ho st s k) \<noteq> None
   \<and> AlertNodes (newAlertResponse rule t h ho st s k) \<noteq> None
   \<and> (\<forall>q'. Query (newAlertResponse rule t h ho st s k) = Some q' \<longrightarrow>
         Fields q' \<noteq> None \<and> Tags_groupBy (GroupBy q') \<noteq> None \<and> Tags q' \<noteq> None)"
  by (auto simp: newAlertResponse_Alerts newAlertResponse_AlertNodes newAlertResponse_Query
      Query_block_fields)

section \<open>C1: scope resolution\<close>

text \<open>
  C1. Scope resolution is an indistinguishable NotFound. Let \<open>I\<close> be an instance the store
  returns for its id. Requested under its own source, \<^verbatim>\<open>KapacitorsID\<close> answers with the
  representation of \<open>I\<close> and \<^verbatim>\<open>RemoveKapacitor\<close> deletes \<open>I\<close>. Requested under any other
  source \<open>S'\<close>, both answer \<^verbatim>\<open>notFound\<close> for the id and touch nothing, and the whole
  outcome is the one of a service \<open>h0\<close> in which the id does not exist.
\<close>

theorem scope_resolution_not_found:
  assumes "ServersStore_Get h (ID_srv I) = Inr I"
    and "ServersStore_Get h0 (ID_srv I) = Inl e"
    and "S' \<noteq> SrcID I"
  shows "KapacitorsID h (Inr (ID_srv I)) (Inr (SrcID I)) = respond (encodeJSON 200 (newKapacitor I))
       \<and> KapacitorsID h (Inr (ID_srv I)) (Inr S') = respond (notFound (ID_srv I))
       \<and> KapacitorsID h (Inr (ID_srv I)) (Inr S') = KapacitorsID h0 (Inr (ID_srv I)) (Inr S')
       \<and> calls (RemoveKapacitor h (Inr (ID_srv I)) (Inr (SrcID I))) = [Call_Delete I]
       \<and> RemoveKapacitor h (Inr (ID_srv I)) (Inr S') = respond (notFound (ID_srv I))
       \<and> RemoveKapacitor h (Inr (ID_srv I)) (Inr S') = RemoveKapacitor h0 (Inr (ID_srv I)) (Inr S')"
  using assms
  by (auto simp: KapacitorsID_def RemoveKapacitor_def split: option.splits)

theorem scope_resolution_not_found_witness:
  "ServersStore_Get example_service (ID_srv example_srv) = Inr example_srv
   \<and> ServersStore_Get empty_service (ID_srv example_srv) = Inl (Errorf ''server not found'')
   \<and> (2 :: int) \<noteq> SrcID example_srv
   \<and> KapacitorsID example_service (Inr 5) (Inr 1) = respond (encodeJSON 200 (newKapacitor example_srv))
   \<and> KapacitorsID example_service (Inr 5) (Inr 2) = respond (notFound 5)
   \<and> KapacitorsID example_service (Inr 5) (Inr 2) = KapacitorsID empty_service (Inr 5) (Inr 2)
   \<and> calls (RemoveKapacitor example_service (Inr 5) (Inr 1)) = [Call_Delete example_srv]
   \<and> RemoveKapacitor example_service (Inr 5) (Inr 2) = respond (notFound 5)
   \<and> RemoveKapacitor example_service (Inr 5) (Inr 2) = RemoveKapacitor empty_service (Inr 5) (Inr 2)"
proof -
  have a: "ServersStore_Get example_service (ID_srv example_srv) = Inr example_srv"
    by (simp add: example_service_def example_srv_def)
  have b: "ServersStore_Get empty_service (ID_srv example_srv) = Inl (Errorf ''server not found'')"
    by (simp add: empty_service_def)
  have c: "(2 :: int) \<noteq> SrcID example_srv"
    by (simp add: example_srv_def)
  have i: "ID_srv example_srv = 5" "SrcID example_srv = 1"
    by (simp_all add: example_srv_def)
  show ?thesis
    using scope_resolution_not_found [OF a b c] a b c
    unfolding i by blast
qed

section \<open>C2: collections of the rule response\<close>

text \<open>
  C2. The claim: for every rule, \<^verbatim>\<open>newAlertResponse\<close> yields no \<^verbatim>\<open>nil\<close> collection for
  alerts, alertNodes, each node's args, each node property's args, query.fields, each
  field's funcs, query.groupBy.tags and query.tags. The code keeps it for the collections
  it assigns through \<^verbatim>\<open>res\<close> (\<open>newAlertResponse_top_level_not_nil\<close>). For the three nested
  ones it assigns to the loop variable, a copy: on \<open>sparse_rule\<close> the response still holds
  the \<^verbatim>\<open>nil\<close> args of the node, the \<^verbatim>\<open>nil\<close> args of its property and the \<^verbatim>\<open>nil\<close> funcs of
  the field.
\<close>

theorem newAlertResponse_nested_nil_kept:
  "AlertNodes (newAlertResponse sparse_rule '''' ''/kapacitor/v1/tasks/r2''
       ''/kapacitor/v1/tasks/r2/output'' ''enabled'' 1 5)
     = Some [\<lparr>Name_node = ''slack'', Args_node = None,
              Properties = Some [\<lparr>Name_prop = ''channel'', Args_prop = None\<rparr>]\<rparr>]
   \<and> map_option Fields (Query (newAlertResponse sparse_rule '''' ''/kapacitor/v1/tasks/r2''
       ''/kapacitor/v1/tasks/r2/output'' ''enabled'' 1 5))
     = Some (Some [\<lparr>Field_name = ''usage_user'', Funcs = None\<rparr>])"
  by (simp add: newAlertResponse_AlertNodes newAlertResponse_Query Query_block_fields
      sparse_rule_def sparse_query_def elems_def)

section \<open>C3: the id of the query\<close>

text \<open>
  C3, as stated: for a rule with a query, the response's query id equals the rule's id if
  and only if the query id of the input was the empty string. On \<open>example_rule\<close> the query
  id of the input is \<open>r1\<close>, not empty, and the query id of the response equals the rule's
  id \<open>r1\<close>: the equivalence fails from left to right.
\<close>

theorem query_id_iff_counterexample:
  "map_option ID_query (Query example_rule) = Some ''r1''
   \<and> map_option ID_query (Query (newAlertResponse example_rule '''' '''' '''' ''enabled'' 1 5))
       = Some (ID example_rule)
   \<and> \<not> ((map_option ID_query (Query (newAlertResponse example_rule '''' '''' '''' ''enabled'' 1 5))
            = Some (ID example_rule))
          = (map_option ID_query (Query example_rule) = Some ''''))"
  by (simp add: newAlertResponse_Query Query_block_fields example_rule_def example_query_def)

text \<open>
  C3, amended: for every rule with a present query, the response has a query; its id is the
  rule's id when the query id of the input is the empty string, and the query id of the
  input, unchanged, when that is not empty.
\<close>

theorem newAlertResponse_query_id:
  "Query rule = Some q \<Longrightarrow>
   map_option ID_query (Query (newAlertResponse rule tickScript href hrefOutput status srcID kapaID))
     = Some (if ID_query q = '''' then ID rule else ID_query q)"
  by (simp add: newAlertResponse_Query Query_block_fields)

theorem newAlertResponse_query_id_witness:
  "Query (mean_rule ''1m'') = Some mean_query
   \<and> map_option ID_query (Query (newAlertResponse (mean_rule ''1m'') '''' '''' '''' ''enabled'' 1 5))
       = Some ''r3''
   \<and> Query example_rule = Some example_query
   \<and> map_option ID_query (Query (newAlertResponse example_rule '''' '''' '''' ''enabled'' 1 5))
       = Some ''r1''"
proof -
  have a: "Query (mean_rule ''1m'') = Some mean_query"
    by (simp add: mean_rule_def)
  have b: "Query example_rule = Some example_query"
    by (simp add: example_rule_def)
  show ?thesis
    using newAlertResponse_query_id [OF a, of "''''" "''''" "''''" "''enabled''" 1 5]
      newAlertResponse_query_id [OF b, of "''''" "''''" "''''" "''enabled''" 1 5] a b
    by (simp add: mean_rule_def mean_query_def example_rule_def example_query_def)
qed

section \<open>C4: validation of a submitted rule\<close>

lemma hasFuncs_iff: "hasFuncs fs \<longleftrightarrow> (\<exists>f \<in> set fs. len (Funcs f) > 0)"
  by (induction fs) auto

text \<open>
  C4. \<^verbatim>\<open>ValidRuleRequest\<close> returns an error for every rule without a query; an error for
  every rule with a field whose funcs are not empty while \<^verbatim>\<open>every\<close> is the empty string;
  and no error for a rule with a query whose fields all have empty funcs, whatever
  \<^verbatim>\<open>every\<close> is, or whose \<^verbatim>\<open>every\<close> is not empty.
\<close>

theorem ValidRuleRequest_cases:
  "(Query rule = None \<longrightarrow>
      ValidRuleRequest rule = Some (Errorf ''invalid alert rule: no query defined''))
   \<and> (\<forall>q. Query rule = Some q \<and> Every rule = ''''
            \<and> (\<exists>f \<in> set (elems (Fields q)). len (Funcs f) > 0) \<longrightarrow>
          ValidRuleRequest rule
            = Some (Errorf ''invalid alert rule: functions require an \"every\" window''))
   \<and> (\<forall>q. Query rule = Some q
            \<and> ((\<forall>f \<in> set (elems (Fields q)). len (Funcs f) = 0) \<or> Every rule \<noteq> '''') \<longrightarrow>
          ValidRuleRequest rule = None)"
  by (auto simp: ValidRuleRequest_def hasFuncs_iff)

theorem ValidRuleRequest_cases_witness:
  "Query (example_rule\<lparr>Query := None\<rparr>) = None
   \<and> ValidRuleRequest (example_rule\<lparr>Query := None\<rparr>)
       = Some (Errorf ''invalid alert rule: no query defined'')
   \<and> Every (mean_rule '''') = ''''
   \<and> ValidRuleRequest (mean_rule '''')
       = Some (Errorf ''invalid alert rule: functions require an \"every\" window'')
   \<and> Every (mean_rule ''1m'') = ''1m''
   \<and> ValidRuleRequest (mean_rule ''1m'') = None
   \<and> Every example_rule = ''''
   \<and> ValidRuleRequest example_rule = None"
proof -
  have a: "Query (example_rule\<lparr>Query := None\<rparr>) = None"
    by simp
  have b: "Query (mean_rule e) = Some mean_query
           \<and> (\<exists>f \<in> set (elems (Fields mean_query)). len (Funcs f) > 0)" for e
    by (simp add: mean_rule_def mean_query_def elems_def len_def)
  have c: "Query example_rule = Some example_query
           \<and> (\<forall>f \<in> set (elems (Fields example_query)). len (Funcs f) = 0)"
    by (simp add: example_rule_def example_query_def elems_def)
  have e: "Every (mean_rule '''') = '''' \<and> Every (mean_rule ''1m'') = ''1m''
           \<and> Every example_rule = ''''"
    by (simp add: mean_rule_def example_rule_def)
  have 1: "ValidRuleRequest (example_rule\<lparr>Query := None\<rparr>)
             = Some (Errorf ''invalid alert rule: no query defined'')"
    using ValidRuleRequest_cases [of "example_rule\<lparr>Query := None\<rparr>", THEN conjunct1] a
    by simp
  have 2: "ValidRuleRequest (mean_rule '''')
             = Some (Errorf ''invalid alert rule: functions require an \"every\" window'')"
    using ValidRuleRequest_cases [of "mean_rule ''''", THEN conjunct2, THEN conjunct1,
        THEN spec, of mean_query] b [of "''''"] e
    by simp
  have 3: "ValidRuleRequest (mean_rule ''1m'') = None"
    using ValidRuleRequest_cases [of "mean_rule ''1m''", THEN conjunct2, THEN conjunct2,
        THEN spec, of mean_query] b [of "''1m''"] e
    by simp
  have 4: "ValidRuleRequest example_rule = None"
    using ValidRuleRequest_cases [of example_rule, THEN conjunct2, THEN conjunct2,
        THEN spec, of example_query] c
    by simp
  show ?thesis
    using a e 1 2 3 4 by simp
qed

section \<open>C5: creating an instance\<close>

lemma Valid_post_None_iff:
  "(Valid_post P req = None)
     = (\<exists>name u url. Name_post req = Some name \<and> URL_post req = Some u \<and> P u = Inr url
          \<and> Scheme url \<noteq> '''')"
  by (auto simp: Valid_post_def split: option.splits sum.splits)

lemma NewKapacitor_no_panic: "reply (NewKapacitor h P id_param body) \<noteq> panic"
  by (auto simp: NewKapacitor_def respond_def Let_def Valid_post_None_iff
      split: sum.splits option.splits)

text \<open>
  C5, as stated: creation requires a non-empty name, and every request that violates this
  fails with an invalid-instance error. The request \<open>unnamed_request\<close> has the empty string
  as its name, and the instance is created: \<^verbatim>\<open>Valid\<close> tests the pointers against \<^verbatim>\<open>nil\<close>,
  not the strings against \<^verbatim>\<open>""\<close>.
\<close>

theorem empty_name_accepted_counterexample:
  "Name_post unnamed_request = Some ''''
   \<and> Valid_post example_ParseRequestURI unnamed_request = None
   \<and> NewKapacitor example_service example_ParseRequestURI (Inr 1) (Inr unnamed_request)
       = \<lparr>Header = [(''Location'', ''/chronograf/v1/sources/1/kapacitors/5'')],
          reply = encodeJSON 201
            \<lparr>ID_kapa = 5, Name_kapa = '''', URL_kapa = ''http://localhost:9092'',
             Username_kapa = '''', Password_kapa = '''', Active_kapa = False,
             Links_kapa = \<lparr>Proxy = ''/chronograf/v1/sources/1/kapacitors/5/proxy'',
                           Self_kapa = ''/chronograf/v1/sources/1/kapacitors/5'',
                           Rules_kapa = ''/chronograf/v1/sources/1/kapacitors/5/rules''\<rparr>\<rparr>,
          calls = [Call_Add \<lparr>ID_srv = 0, SrcID = 1, Name_srv = '''', Username_srv = '''',
                             Password_srv = '''', URL_srv = ''http://localhost:9092'',
                             Active_srv = False\<rparr>]\<rparr>"
proof -
  have d: "fmt_d 1 = ''1''" "fmt_d 5 = ''5''"
    by code_simp+
  have v: "Valid_post example_ParseRequestURI unnamed_request = None"
    by (simp add: Valid_post_def example_ParseRequestURI_def unnamed_request_def)
  have n: "Name_post unnamed_request = Some ''''"
    "URL_post unnamed_request = Some ''http://localhost:9092''"
    "Username_post unnamed_request = ''''"
    "Password_post unnamed_request = ''''"
    "Active_post unnamed_request = False"
    by (simp_all add: unnamed_request_def)
  have s: "SourcesStore_Get example_service 1 = None"
    "ServersStore_Add example_service srv = Inr (srv\<lparr>ID_srv := 5\<rparr>)" for srv
    by (simp_all add: example_service_def)
  show ?thesis
    by (simp add: NewKapacitor_def v n s newKapacitor_def d)
qed

text \<open>
  C5, amended: creation requires name and URL to be present (an empty name is accepted) and
  the URL to be parsed by \<^verbatim>\<open>url.ParseRequestURI\<close> into a URL with a non-empty scheme. Under
  an existing source, every decoded request that violates one of these fails with
  \<^verbatim>\<open>invalidData\<close> and the error of \<^verbatim>\<open>Valid\<close>, and nothing is added to the store; when the
  owning source does not exist, creation fails with \<^verbatim>\<open>notFound\<close> for the source id,
  whatever the body.
\<close>

theorem NewKapacitor_invalid_instance:
  "(Valid_post P req = None)
     = (\<exists>name u url. Name_post req = Some name \<and> URL_post req = Some u \<and> P u = Inr url
          \<and> Scheme url \<noteq> '''')
   \<and> (\<forall>err. SourcesStore_Get h srcID = None \<and> Valid_post P req = Some err \<longrightarrow>
         NewKapacitor h P (Inr srcID) (Inr req) = respond (invalidData err))
   \<and> (\<forall>e. SourcesStore_Get h srcID = Some e \<longrightarrow>
         NewKapacitor h P (Inr srcID) body = respond (notFound srcID))"
  by (simp add: Valid_post_None_iff NewKapacitor_def)

theorem NewKapacitor_invalid_instance_witness:
  "Valid_post example_ParseRequestURI kapa1_request = None
   \<and> SourcesStore_Get example_service 1 = None
   \<and> Valid_post example_ParseRequestURI schemeless_request
       = Some (Errorf ''invalid source URI: invalid URI for request'')
   \<and> NewKapacitor example_service example_ParseRequestURI (Inr 1) (Inr schemeless_request)
       = respond (invalidData (Errorf ''invalid source URI: invalid URI for request''))
   \<and> SourcesStore_Get example_service 2 = Some (Errorf ''source not found'')
   \<and> NewKapacitor example_service example_ParseRequestURI (Inr 2) (Inr kapa1_request)
       = respond (notFound 2)"
proof -
  note T = NewKapacitor_invalid_instance [of example_ParseRequestURI _ example_service]
  have a: "\<exists>name u url. Name_post kapa1_request = Some name \<and> URL_post kapa1_request = Some u
             \<and> example_ParseRequestURI u = Inr url \<and> Scheme url \<noteq> ''''"
    by (simp add: kapa1_request_def example_ParseRequestURI_def)
  have 1: "Valid_post example_ParseRequestURI kapa1_request = None"
    using T [of kapa1_request 1 "Inr kapa1_request", THEN conjunct1] a by blast
  have s1: "SourcesStore_Get example_service 1 = None"
    by (simp add: example_service_def)
  have s2: "SourcesStore_Get example_service 2 = Some (Errorf ''source not found'')"
    by (simp add: example_service_def)
  have v: "Valid_post example_ParseRequestURI schemeless_request
             = Some (Errorf ''invalid source URI: invalid URI for request'')"
    by (simp add: Valid_post_def schemeless_request_def example_ParseRequestURI_def)
  have 2: "NewKapacitor example_service example_ParseRequestURI (Inr 1) (Inr schemeless_request)
             = respond (invalidData (Errorf ''invalid source URI: invalid URI for request''))"
    using T [of schemeless_request 1 "Inr schemeless_request", THEN conjunct2, THEN conjunct1,
        THEN spec, of "Errorf ''invalid source URI: invalid URI for request''"] s1 v
    by blast
  have 3: "NewKapacitor example_service example_ParseRequestURI (Inr 2) (Inr kapa1_request)
             = respond (notFound 2)"
    using T [of kapa1_request 2 "Inr kapa1_request", THEN conjunct2, THEN conjunct2, THEN spec,
        of "Errorf ''source not found''"] s2
    by blast
  show ?thesis
    using 1 2 3 s1 s2 v by blast
qed

section \<open>C6: updating an instance\<close>

lemma UpdateKapacitor_assign_fields:
  "Name_srv (UpdateKapacitor_assign req srv)
     = (case Name_patch req of None \<Rightarrow> Name_srv srv | Some v \<Rightarrow> v)"
  "URL_srv (UpdateKapacitor_assign req srv)
     = (case URL_patch req of None \<Rightarrow> URL_srv srv | Some v \<Rightarrow> v)"
  "Username_srv (UpdateKapacitor_assign req srv)
     = (case Username_patch req of None \<Rightarrow> Username_srv srv | Some v \<Rightarrow> v)"
  "Password_srv (UpdateKapacitor_assign req srv)
     = (case Password_patch req of None \<Rightarrow> Password_srv srv | Some v \<Rightarrow> v)"
  "Active_srv (UpdateKapacitor_assign req srv)
     = (case Active_patch req of None \<Rightarrow> Active_srv srv | Some v \<Rightarrow> v)"
  "ID_srv (UpdateKapacitor_assign req srv) = ID_srv srv"
  "SrcID (UpdateKapacitor_assign req srv) = SrcID srv"
  by (simp_all add: UpdateKapacitor_assign_def split: option.splits)

text \<open>
  C6, as stated: for every stored instance and every patch request, each field that is
  present in the request overwrites the stored value. The patch \<open>bad_url_patch\<close> has a
  name, \<open>kapa2\<close>, and a URL that \<^verbatim>\<open>url.ParseRequestURI\<close> refuses: \<^verbatim>\<open>Valid\<close> fails, the handler
  answers \<^verbatim>\<open>invalidData\<close> before its assignments and hands the store no update, so the
  stored name \<open>kapa1\<close> is not overwritten.
\<close>

theorem invalid_patch_not_merged_counterexample:
  "ServersStore_Get example_service 5 = Inr example_srv
   \<and> SrcID example_srv = 1
   \<and> Name_srv example_srv = ''kapa1''
   \<and> Name_patch bad_url_patch = Some ''kapa2''
   \<and> Valid_patch example_ParseRequestURI bad_url_patch
       = Some (Errorf ''invalid source URI: invalid URI for request'')
   \<and> UpdateKapacitor example_service example_ParseRequestURI (Inr 5) (Inr 1) (Inr bad_url_patch)
       = \<lparr>Header = [],
          reply = invalidData (Errorf ''invalid source URI: invalid URI for request''),
          calls = []\<rparr>"
proof -
  have a: "ServersStore_Get example_service 5 = Inr example_srv"
    by (simp add: example_service_def)
  have b: "SrcID example_srv = 1" "Name_srv example_srv = ''kapa1''"
    by (simp_all add: example_srv_def)
  have n: "Name_patch bad_url_patch = Some ''kapa2''"
    by (simp add: bad_url_patch_def)
  have v: "Valid_patch example_ParseRequestURI bad_url_patch
             = Some (Errorf ''invalid source URI: invalid URI for request'')"
    by (simp add: Valid_patch_def bad_url_patch_def example_ParseRequestURI_def)
  have u: "UpdateKapacitor example_service example_ParseRequestURI (Inr 5) (Inr 1)
             (Inr bad_url_patch)
       = \<lparr>Header = [],
          reply = invalidData (Errorf ''invalid source URI: invalid URI for request''),
          calls = []\<rparr>"
    by (simp add: UpdateKapacitor_def a b v respond_def)
  show ?thesis
    using a b n v u by blast
qed

text \<open>
  C6, amended: instance update is a partial merge for every patch that passes \<^verbatim>\<open>Valid\<close>.
  For an instance \<open>srv\<close> the store returns under the requested source and such a patch,
  the handler hands the store one update, of a server in which each of name, URL,
  username, password and active is the value of the request where the request has one
  and the stored value where it has none, and whose id and source id are those of \<open>srv\<close>:
  a server has no other field. When the store accepts the update, this server is what the
  response shows.
\<close>

theorem UpdateKapacitor_partial_merge:
  assumes "ServersStore_Get h kid = Inr srv"
    and "SrcID srv = srcID"
    and "Valid_patch P req = None"
  shows "\<exists>srv'. calls (UpdateKapacitor h P (Inr kid) (Inr srcID) (Inr req)) = [Call_Update srv']
     \<and> Name_srv srv' = (case Name_patch req of None \<Rightarrow> Name_srv srv | Some v \<Rightarrow> v)
     \<and> URL_srv srv' = (case URL_patch req of None \<Rightarrow> URL_srv srv | Some v \<Rightarrow> v)
     \<and> Username_srv srv' = (case Username_patch req of None \<Rightarrow> Username_srv srv | Some v \<Rightarrow> v)
     \<and> Password_srv srv' = (case Password_patch req of None \<Rightarrow> Password_srv srv | Some v \<Rightarrow> v)
     \<and> Active_srv srv' = (case Active_patch req of None \<Rightarrow> Active_srv srv | Some v \<Rightarrow> v)
     \<and> ID_srv srv' = ID_srv srv
     \<and> SrcID srv' = SrcID srv
     \<and> (ServersStore_Update h srv' = None \<longrightarrow>
          reply (UpdateKapacitor h P (Inr kid) (Inr srcID) (Inr req))
            = encodeJSON 200 (newKapacitor srv'))"
proof (intro exI [of _ "UpdateKapacitor_assign req srv"] conjI)
  show "calls (UpdateKapacitor h P (Inr kid) (Inr srcID) (Inr req))
          = [Call_Update (UpdateKapacitor_assign req srv)]"
    using assms by (simp add: UpdateKapacitor_def Let_def split: option.splits)
  show "ServersStore_Update h (UpdateKapacitor_assign req srv) = None \<longrightarrow>
          reply (UpdateKapacitor h P (Inr kid) (Inr srcID) (Inr req))
            = encodeJSON 200 (newKapacitor (UpdateKapacitor_assign req srv))"
    using assms by (simp add: UpdateKapacitor_def Let_def)
qed (simp_all add: UpdateKapacitor_assign_fields)

theorem UpdateKapacitor_partial_merge_witness:
  "ServersStore_Get example_service 5 = Inr example_srv
   \<and> SrcID example_srv = 1
   \<and> Valid_patch example_ParseRequestURI example_patch = None
   \<and> calls (UpdateKapacitor example_service example_ParseRequestURI (Inr 5) (Inr 1)
        (Inr example_patch))
       = [Call_Update \<lparr>ID_srv = 5, SrcID = 1, Name_srv = ''kapa2'', Username_srv = ''admin'',
                        Password_srv = ''pw'', URL_srv = ''http://localhost:9092'',
                        Active_srv = False\<rparr>]"
proof -
  have a: "ServersStore_Get example_service 5 = Inr example_srv"
    by (simp add: example_service_def)
  have b: "SrcID example_srv = 1"
    by (simp add: example_srv_def)
  have c: "Valid_patch example_ParseRequestURI example_patch = None"
    by (simp add: Valid_patch_def example_patch_def)
  obtain srv' where
    r: "calls (UpdateKapacitor example_service example_ParseRequestURI (Inr 5) (Inr 1)
          (Inr example_patch)) = [Call_Update srv']"
    and f: "Name_srv srv' = (case Name_patch example_patch of None \<Rightarrow> Name_srv example_srv | Some v \<Rightarrow> v)"
      "URL_srv srv' = (case URL_patch example_patch of None \<Rightarrow> URL_srv example_srv | Some v \<Rightarrow> v)"
      "Username_srv srv' = (case Username_patch example_patch of None \<Rightarrow> Username_srv example_srv | Some v \<Rightarrow> v)"
      "Password_srv srv' = (case Password_patch example_patch of None \<Rightarrow> Password_srv example_srv | Some v \<Rightarrow> v)"
      "Active_srv srv' = (case Active_patch example_patch of None \<Rightarrow> Active_srv example_srv | Some v \<Rightarrow> v)"
      "ID_srv srv' = ID_srv example_srv"
      "SrcID srv' = SrcID example_srv"
    using UpdateKapacitor_partial_merge [OF a b c] by blast
  have "srv' = \<lparr>ID_srv = 5, SrcID = 1, Name_srv = ''kapa2'', Username_srv = ''admin'',
                 Password_srv = ''pw'', URL_srv = ''http://localhost:9092'',
                 Active_srv = False\<rparr>"
    using f by (cases srv') (simp add: example_patch_def example_srv_def)
  with r a b c show ?thesis
    by simp
qed

section \<open>C7: validation of a status\<close>

text \<open>
  C7. Status validation succeeds exactly for the two strings "enabled" and "disabled":
  \<^verbatim>\<open>KapacitorStatus.Valid\<close> returns nil for these two and, for every other string, the
  invalid-status error, whose message names the rejected value.
\<close>

theorem Valid_status_exact:
  "(Valid_status k = None) = (Status_req k \<in> {''enabled'', ''disabled''})
   \<and> (Valid_status k = None
        \<or> Valid_status k = Some (Errorf (''Invalid Kapacitor status: '' @ Status_req k)))"
  by (simp add: Valid_status_def)

section \<open>C8: links\<close>

text \<open>What \<^verbatim>\<open>url.QueryEscape\<close> returns is made of unreserved bytes, \<^verbatim>\<open>+\<close> and \<^verbatim>\<open>%\<close> only.\<close>

lemma lower_case_letters: "map char_of [97..<123::nat] = ''abcdefghijklmnopqrstuvwxyz''"
  by code_simp

lemma upper_case_letters: "map char_of [65..<91::nat] = ''ABCDEFGHIJKLMNOPQRSTUVWXYZ''"
  by code_simp

lemma decimal_digits: "map char_of [48..<58::nat] = ''0123456789''"
  by code_simp

lemma char_in_range:
  assumes "a \<le> (of_char c :: nat)" and "of_char c < (b::nat)"
  shows "c \<in> set (map char_of [a..<b])"
proof -
  have "(of_char c :: nat) \<in> set [a..<b]"
    using assms by simp
  then have "char_of (of_char c :: nat) \<in> char_of ` set [a..<b]"
    by (rule imageI)
  then show ?thesis
    by simp
qed

lemma not_shouldEscape_safe:
  assumes "\<not> shouldEscape c"
  shows "query_safe c"
proof -
  let ?b = "of_char c :: nat"
  from assms consider "97 \<le> ?b \<and> ?b < 123" | "65 \<le> ?b \<and> ?b < 91" | "48 \<le> ?b \<and> ?b < 58"
    | "c \<in> {CHR ''-'', CHR ''_'', CHR ''.'', CHR ''~''}"
    by (auto simp: shouldEscape_def Let_def split: if_splits)
  then show ?thesis
  proof cases
    case 1
    then have "c \<in> set (map char_of [97..<123::nat])"
      by (intro char_in_range) simp_all
    then show ?thesis
      unfolding lower_case_letters by (auto simp: query_safe_def)
  next
    case 2
    then have "c \<in> set (map char_of [65..<91::nat])"
      by (intro char_in_range) simp_all
    then show ?thesis
      unfolding upper_case_letters by (auto simp: query_safe_def)
  next
    case 3
    then have "c \<in> set (map char_of [48..<58::nat])"
      by (intro char_in_range) simp_all
    then show ?thesis
      unfolding decimal_digits by (auto simp: query_safe_def)
  next
    case 4
    then show ?thesis
      by (auto simp: query_safe_def)
  qed
qed

lemma upperhex_safe:
  assumes "k < 16"
  shows "query_safe (upperhex ! k)"
proof -
  from assms have "upperhex ! k \<in> set upperhex"
    by (intro nth_mem) (simp add: upperhex_def)
  then show ?thesis
    by (auto simp: upperhex_def query_safe_def)
qed

lemma high_nibble: "(of_char c :: nat) div 16 < 16"
proof -
  have "(of_char c :: nat) < 256"
    by (rule nat_of_char_less_256)
  then show ?thesis
    by arith
qed

lemma plus_percent_safe: "query_safe CHR 0x2B" "query_safe CHR 0x25"
  by (simp_all add: query_safe_def)

lemma QueryEscape_safe: "list_all query_safe (QueryEscape s)"
  unfolding QueryEscape_def
  by (induction s)
    (simp_all add: not_shouldEscape_safe upperhex_safe high_nibble plus_percent_safe)

lemma NewKapacitor_created:
  assumes "reply (NewKapacitor h P id_param body) = encodeJSON 201 res"
  shows "\<exists>srv'. res = newKapacitor srv'
           \<and> Header (NewKapacitor h P id_param body)
               = [(''Location'', Self_kapa (Links_kapa res))]"
  using assms
  by (auto simp: NewKapacitor_def respond_def Let_def split: sum.splits option.splits)

text \<open>
  C8. The links are functions of the source id, the instance id, the rule id and the href.
  The self link of an instance is \<^verbatim>\<open>/chronograf/v1/sources/{sourceId}/kapacitors/{id}\<close>,
  also for the instance \<^verbatim>\<open>NewKapacitor\<close> answers a creation with, where it is the
  \<^verbatim>\<open>Location\<close> header as well. The kapacitor and output links of a rule response are both
  the proxy route \<^verbatim>\<open>/sources/{sourceId}/kapacitors/{instanceId}/proxy?path=...\<close> under the
  prefix \<^verbatim>\<open>/chronograf/v1\<close>, with the percent-encoded href and output href as the path.
\<close>

theorem links_follow_templates:
  "Self_kapa (Links_kapa (newKapacitor srv)) = spec_instance_self (SrcID srv) (ID_srv srv)
   \<and> Kapacitor (Links (newAlertResponse rule tickScript href hrefOutput status srcID kapaID))
       = ''/chronograf/v1'' @ spec_proxy_route srcID kapaID href
   \<and> Output (Links (newAlertResponse rule tickScript href hrefOutput status srcID kapaID))
       = ''/chronograf/v1'' @ spec_proxy_route srcID kapaID hrefOutput
   \<and> list_all query_safe (QueryEscape href)
   \<and> list_all query_safe (QueryEscape hrefOutput)
   \<and> (\<forall>res. reply (NewKapacitor h P id_param body) = encodeJSON 201 res \<longrightarrow>
         (\<exists>srv'. res = newKapacitor srv'
            \<and> Self_kapa (Links_kapa res) = spec_instance_self (SrcID srv') (ID_kapa res)
            \<and> Header (NewKapacitor h P id_param body)
                = [(''Location'', Self_kapa (Links_kapa res))]))"
proof (intro conjI allI impI)
  show "Self_kapa (Links_kapa (newKapacitor srv)) = spec_instance_self (SrcID srv) (ID_srv srv)"
    by (simp add: newKapacitor_def spec_instance_self_def)
  show "Kapacitor (Links (newAlertResponse rule tickScript href hrefOutput status srcID kapaID))
          = ''/chronograf/v1'' @ spec_proxy_route srcID kapaID href"
    by (simp add: newAlertResponse_Links spec_proxy_route_def)
  show "Output (Links (newAlertResponse rule tickScript href hrefOutput status srcID kapaID))
          = ''/chronograf/v1'' @ spec_proxy_route srcID kapaID hrefOutput"
    by (simp add: newAlertResponse_Links spec_proxy_route_def)
  show "list_all query_safe (QueryEscape href)" "list_all query_safe (QueryEscape hrefOutput)"
    by (rule QueryEscape_safe)+
next
  fix res
  assume "reply (NewKapacitor h P id_param body) = encodeJSON 201 res"
  from NewKapacitor_created [OF this] obtain srv' where
    "res = newKapacitor srv'"
    "Header (NewKapacitor h P id_param body) = [(''Location'', Self_kapa (Links_kapa res))]"
    by blast
  then show "\<exists>srv'. res = newKapacitor srv'
      \<and> Self_kapa (Links_kapa res) = spec_instance_self (SrcID srv') (ID_kapa res)
      \<and> Header (NewKapacitor h P id_param body) = [(''Location'', Self_kapa (Links_kapa res))]"
    by (intro exI [of _ srv']) (simp add: newKapacitor_def spec_instance_self_def)
qed

theorem links_follow_templates_witness:
  "(\<exists>res. reply (NewKapacitor example_service example_ParseRequestURI (Inr 1) (Inr kapa1_request))
            = encodeJSON 201 res
         \<and> Self_kapa (Links_kapa res) = ''/chronograf/v1/sources/1/kapacitors/5''
         \<and> Header (NewKapacitor example_service example_ParseRequestURI (Inr 1) (Inr kapa1_request))
            = [(''Location'', ''/chronograf/v1/sources/1/kapacitors/5'')])
   \<and> Kapacitor (Links (newAlertResponse example_rule '''' ''/kapacitor/v1/tasks/r1''
         ''/kapacitor/v1/tasks/r1/output'' ''enabled'' 1 5))
       = ''/chronograf/v1/sources/1/kapacitors/5/proxy?path=%2Fkapacitor%2Fv1%2Ftasks%2Fr1''
   \<and> Output (Links (newAlertResponse example_rule '''' ''/kapacitor/v1/tasks/r1''
         ''/kapacitor/v1/tasks/r1/output'' ''enabled'' 1 5))
       = ''/chronograf/v1/sources/1/kapacitors/5/proxy?path=%2Fkapacitor%2Fv1%2Ftasks%2Fr1%2Foutput''"
proof -
  note T = links_follow_templates [of _ example_rule "''''" "''/kapacitor/v1/tasks/r1''"
      "''/kapacitor/v1/tasks/r1/output''" "''enabled''" 1 5 example_service
      example_ParseRequestURI "Inr 1" "Inr kapa1_request"]
  have d: "fmt_d 1 = ''1''" "fmt_d 5 = ''5''"
    by code_simp+
  have e: "QueryEscape ''/kapacitor/v1/tasks/r1'' = ''%2Fkapacitor%2Fv1%2Ftasks%2Fr1''"
    "QueryEscape ''/kapacitor/v1/tasks/r1/output''
       = ''%2Fkapacitor%2Fv1%2Ftasks%2Fr1%2Foutput''"
    by (simp_all add: QueryEscape_def shouldEscape_def upperhex_def)
  have v: "Valid_post example_ParseRequestURI kapa1_request = None"
    by (simp add: Valid_post_def example_ParseRequestURI_def kapa1_request_def)
  have n: "Name_post kapa1_request = Some ''kapa1''"
    "URL_post kapa1_request = Some ''http://localhost:9092''"
    by (simp_all add: kapa1_request_def)
  have s: "SourcesStore_Get example_service 1 = None"
    "ServersStore_Add example_service srv = Inr (srv\<lparr>ID_srv := 5\<rparr>)" for srv
    by (simp_all add: example_service_def)
  define res where "res = newKapacitor \<lparr>ID_srv = 5, SrcID = 1, Name_srv = ''kapa1'',
    Username_srv = Username_post kapa1_request, Password_srv = Password_post kapa1_request,
    URL_srv = ''http://localhost:9092'', Active_srv = Active_post kapa1_request\<rparr>"
  have r: "reply (NewKapacitor example_service example_ParseRequestURI (Inr 1) (Inr kapa1_request))
             = encodeJSON 201 res"
    by (simp add: NewKapacitor_def v n s res_def Let_def)
  from T [THEN conjunct2, THEN conjunct2, THEN conjunct2, THEN conjunct2, THEN conjunct2,
      THEN spec, THEN mp, OF r]
  obtain srv' where w: "res = newKapacitor srv'"
    "Self_kapa (Links_kapa res) = spec_instance_self (SrcID srv') (ID_kapa res)"
    "Header (NewKapacitor example_service example_ParseRequestURI (Inr 1) (Inr kapa1_request))
       = [(''Location'', Self_kapa (Links_kapa res))]"
    by blast
  have "ID_kapa res = 5"
    by (simp add: res_def newKapacitor_def)
  moreover have "Self_kapa (Links_kapa res) = ''/chronograf/v1/sources/1/kapacitors/5''"
    by (simp add: res_def newKapacitor_def d)
  ultimately have 1: "\<exists>res. reply (NewKapacitor example_service example_ParseRequestURI (Inr 1)
                       (Inr kapa1_request)) = encodeJSON 201 res
         \<and> Self_kapa (Links_kapa res) = ''/chronograf/v1/sources/1/kapacitors/5''
         \<and> Header (NewKapacitor example_service example_ParseRequestURI (Inr 1) (Inr kapa1_request))
            = [(''Location'', ''/chronograf/v1/sources/1/kapacitors/5'')]"
    using r w by (intro exI [of _ res]) simp
  have 2: "Kapacitor (Links (newAlertResponse example_rule '''' ''/kapacitor/v1/tasks/r1''
         ''/kapacitor/v1/tasks/r1/output'' ''enabled'' 1 5))
       = ''/chronograf/v1/sources/1/kapacitors/5/proxy?path=%2Fkapacitor%2Fv1%2Ftasks%2Fr1''"
    using T [THEN conjunct2, THEN conjunct1] by (simp add: spec_proxy_route_def d e)
  have 3: "Output (Links (newAlertResponse example_rule '''' ''/kapacitor/v1/tasks/r1''
         ''/kapacitor/v1/tasks/r1/output'' ''enabled'' 1 5))
       = ''/chronograf/v1/sources/1/kapacitors/5/proxy?path=%2Fkapacitor%2Fv1%2Ftasks%2Fr1%2Foutput''"
    using T [THEN conjunct2, THEN conjunct2, THEN conjunct1] by (simp add: spec_proxy_route_def d e)
  show ?thesis
    using 1 2 3 by blast
qed

section \<open>C9: listing the rules\<close>

lemma set_map_filter_iff:
  "y \<in> set (List.map_filter f xs) \<longleftrightarrow> (\<exists>x \<in> set xs. f x = Some y)"
  by (induction xs) (auto simp: List.map_filter_simps split: option.splits)

lemma rules_range_Some:
  "rules_range c statuses srv \<lparr>Rules = Some xs\<rparr> rules
     = \<lparr>Rules = Some (xs @ List.map_filter
          (\<lambda>rule. map_option
             (\<lambda>status. newAlertResponse rule (TICKScript_rule rule) (Href c (ID rule))
                (HrefOutput c (ID rule)) status (SrcID srv) (ID_srv srv))
             (statuses (ID rule))) rules)\<rparr>"
proof (induction rules arbitrary: xs)
  case Nil
  then show ?case
    by (simp add: List.map_filter_simps)
next
  case (Cons rule rules)
  show ?case
  proof (cases "statuses (ID rule)")
    case None
    then show ?thesis
      by (simp add: List.map_filter_simps Cons.IH)
  next
    case (Some status)
    then show ?thesis
      by (simp add: List.map_filter_simps Cons.IH append_slice_def elems_def)
  qed
qed

text \<open>
  C9. In the bulk listing the response is the merge by task id of the rules \<^verbatim>\<open>c.All\<close>
  returned and the statuses \<^verbatim>\<open>c.AllStatus\<close> returned. It holds, in the order of the rules,
  the translation of each rule whose id has a status, with that status. So every rule
  whose id is in the status map is in the response with that status, every entry of the
  response has the status the map gives its id, and no entry has the id of a rule that
  the map lacks.
\<close>

theorem KapacitorRulesGet_merges_by_id:
  assumes "ServersStore_Get h kid = Inr srv"
    and "SrcID srv = srcID"
    and "c = NewClient (URL_srv srv) (Username_srv srv) (Password_srv srv)"
    and "All_client c = Inr rules"
    and "AllStatus_client c = Inr statuses"
  shows "\<exists>rs. KapacitorRulesGet h NewClient (Inr kid) (Inr srcID)
              = respond (encodeJSON 200 \<lparr>Rules = Some rs\<rparr>)
     \<and> rs = List.map_filter
          (\<lambda>rule. map_option
             (\<lambda>status. newAlertResponse rule (TICKScript_rule rule) (Href c (ID rule))
                (HrefOutput c (ID rule)) status (SrcID srv) (ID_srv srv))
             (statuses (ID rule))) rules
     \<and> (\<forall>rule \<in> set rules. \<forall>status. statuses (ID rule) = Some status \<longrightarrow>
          newAlertResponse rule (TICKScript_rule rule) (Href c (ID rule))
            (HrefOutput c (ID rule)) status (SrcID srv) (ID_srv srv) \<in> set rs)
     \<and> (\<forall>ar \<in> set rs. statuses (ID ar) = Some (Status ar))
     \<and> (\<forall>rule \<in> set rules. statuses (ID rule) = None \<longrightarrow> (\<forall>ar \<in> set rs. ID ar \<noteq> ID rule))"
proof -
  let ?f = "\<lambda>rule. map_option
             (\<lambda>status. newAlertResponse rule (TICKScript_rule rule) (Href c (ID rule))
                (HrefOutput c (ID rule)) status (SrcID srv) (ID_srv srv))
             (statuses (ID rule))"
  let ?rs = "List.map_filter ?f rules"
  have run: "KapacitorRulesGet h NewClient (Inr kid) (Inr srcID)
               = respond (encodeJSON 200 \<lparr>Rules = Some ?rs\<rparr>)"
    using assms by (simp add: KapacitorRulesGet_def Let_def rules_range_Some)
  have mem: "ar \<in> set ?rs \<longleftrightarrow> (\<exists>rule \<in> set rules. ?f rule = Some ar)" for ar
    by (rule set_map_filter_iff)
  have present: "\<forall>rule \<in> set rules. \<forall>status. statuses (ID rule) = Some status \<longrightarrow>
          newAlertResponse rule (TICKScript_rule rule) (Href c (ID rule))
            (HrefOutput c (ID rule)) status (SrcID srv) (ID_srv srv) \<in> set ?rs"
    by (auto simp: mem)
  have status: "\<forall>ar \<in> set ?rs. statuses (ID ar) = Some (Status ar)"
  proof
    fix ar
    assume "ar \<in> set ?rs"
    then obtain rule where "?f rule = Some ar"
      unfolding mem by blast
    then show "statuses (ID ar) = Some (Status ar)"
      by (auto simp: newAlertResponse_ID newAlertResponse_Status)
  qed
  have absent: "\<forall>rule \<in> set rules. statuses (ID rule) = None \<longrightarrow>
          (\<forall>ar \<in> set ?rs. ID ar \<noteq> ID rule)"
    using status by auto
  show ?thesis
    using run present status absent by blast
qed

theorem KapacitorRulesGet_merges_by_id_witness:
  "ServersStore_Get example_service 5 = Inr example_srv
   \<and> SrcID example_srv = 1
   \<and> All_client example_client = Inr [example_rule, mean_rule ''1m'']
   \<and> AllStatus_client example_client = Inr [''r1'' \<mapsto> ''enabled'']
   \<and> KapacitorRulesGet example_service (\<lambda>url username password. example_client) (Inr 5) (Inr 1)
       = respond (encodeJSON 200
           \<lparr>Rules = Some [newAlertResponse example_rule '''' ''/kapacitor/v1/tasks/r1''
                             ''/kapacitor/v1/tasks/r1/output'' ''enabled'' 1 5]\<rparr>)"
proof -
  have a: "ServersStore_Get example_service 5 = Inr example_srv"
    by (simp add: example_service_def)
  have b: "SrcID example_srv = 1"
    by (simp add: example_srv_def)
  have c: "example_client = (\<lambda>url username password. example_client) (URL_srv example_srv)
             (Username_srv example_srv) (Password_srv example_srv)"
    by simp
  have d: "All_client example_client = Inr [example_rule, mean_rule ''1m'']"
    by (simp add: example_client_def)
  have e: "AllStatus_client example_client = Inr [''r1'' \<mapsto> ''enabled'']"
    by (simp add: example_client_def)
  have f: "ID example_rule = ''r1''" "ID (mean_rule ''1m'') = ''r3''"
    "TICKScript_rule example_rule = ''''"
    "Href example_client t = ''/kapacitor/v1/tasks/'' @ t"
    "HrefOutput example_client t = ''/kapacitor/v1/tasks/'' @ t @ ''/output''"
    "ID_srv example_srv = 5" for t
    by (simp_all add: example_rule_def mean_rule_def example_client_def example_srv_def)
  from KapacitorRulesGet_merges_by_id [OF a b c d e] obtain rs where
    "KapacitorRulesGet example_service (\<lambda>url username password. example_client) (Inr 5) (Inr 1)
       = respond (encodeJSON 200 \<lparr>Rules = Some rs\<rparr>)"
    and "rs = List.map_filter
          (\<lambda>rule. map_option
             (\<lambda>status. newAlertResponse rule (TICKScript_rule rule) (Href example_client (ID rule))
                (HrefOutput example_client (ID rule)) status (SrcID example_srv)
                (ID_srv example_srv))
             ([''r1'' \<mapsto> ''enabled''] (ID rule))) [example_rule, mean_rule ''1m'']"
    by blast
  then show ?thesis
    using a b d e by (simp add: List.map_filter_simps f b)
qed

section \<open>C10: the id of an updated rule\<close>

text \<open>
  C10. On rule update, whatever the handler sends to the engine's \<^verbatim>\<open>Update\<close> carries the
  task id of the request path. Every update the handler issues is of a rule whose id is
  \<open>tid\<close>. When the instance resolves and the task exists, it issues exactly one, at
  \<^verbatim>\<open>c.Href(tid)\<close>, of the body with its id overwritten by \<open>tid\<close>, and what it writes is
  what the engine answers to that very update: the error with status 500, or the
  translation of the task returned. The handler never asks the engine to update a rule
  with another id: replace the client by one that answers differently to updates of rules
  whose id is not \<open>tid\<close>, and the outcome of the handler is the same. And the id in the
  body has no part in it: the outcome is the same whatever id the body carries.
\<close>

theorem KapacitorRulesPut_sends_path_id:
  "(\<forall>href rule. Call_Update_client href rule
        \<in> set (calls (KapacitorRulesPut h NewClient kid_param id_param tid body)) \<longrightarrow>
      ID rule = tid)
   \<and> (\<forall>kid srv r0 req.
        kid_param = Inr kid \<and> id_param = Inr (SrcID srv) \<and> body = Inr req
        \<and> ServersStore_Get h kid = Inr srv
        \<and> Get_client (NewClient (URL_srv srv) (Username_srv srv) (Password_srv srv)) tid = Inr r0
        \<longrightarrow>
        calls (KapacitorRulesPut h NewClient kid_param id_param tid body)
          = [Call_Update_client
               (Href (NewClient (URL_srv srv) (Username_srv srv) (Password_srv srv)) tid)
               (req\<lparr>ID := tid\<rparr>)]
        \<and> reply (KapacitorRulesPut h NewClient kid_param id_param tid body)
          = (case Update_client (NewClient (URL_srv srv) (Username_srv srv) (Password_srv srv))
                    (Href (NewClient (URL_srv srv) (Username_srv srv) (Password_srv srv)) tid)
                    (req\<lparr>ID := tid\<rparr>) of
               Inl err \<Rightarrow> Error 500 (Error_string err)
             | Inr task \<Rightarrow>
                 encodeJSON 200
                   (newAlertResponse (Rule task) (TICKScript_task task) (Href_task task)
                      (HrefOutput_task task) ''enabled'' (SrcID srv) (ID_srv srv))))
   \<and> (\<forall>NewClient'.
        (\<forall>url username password.
           Get_client (NewClient' url username password)
             = Get_client (NewClient url username password)
           \<and> Href (NewClient' url username password) = Href (NewClient url username password)
           \<and> (\<forall>href rule. ID rule = tid \<longrightarrow>
                 Update_client (NewClient' url username password) href rule
                   = Update_client (NewClient url username password) href rule))
        \<longrightarrow>
        KapacitorRulesPut h NewClient' kid_param id_param tid body
          = KapacitorRulesPut h NewClient kid_param id_param tid body)
   \<and> (\<forall>req other. body = Inr req \<longrightarrow>
        KapacitorRulesPut h NewClient kid_param id_param tid (Inr (req\<lparr>ID := other\<rparr>))
          = KapacitorRulesPut h NewClient kid_param id_param tid body)"
proof (intro conjI allI impI)
  fix NewClient' :: "string \<Rightarrow> string \<Rightarrow> string \<Rightarrow> Client"
  assume same: "\<forall>url username password.
           Get_client (NewClient' url username password)
             = Get_client (NewClient url username password)
           \<and> Href (NewClient' url username password) = Href (NewClient url username password)
           \<and> (\<forall>href rule. ID rule = tid \<longrightarrow>
                 Update_client (NewClient' url username password) href rule
                   = Update_client (NewClient url username password) href rule)"
  have u: "Update_client (NewClient' url username password) href (req\<lparr>ID := tid\<rparr>)
             = Update_client (NewClient url username password) href (req\<lparr>ID := tid\<rparr>)"
    for url username password href req
    using same by simp
  show "KapacitorRulesPut h NewClient' kid_param id_param tid body
          = KapacitorRulesPut h NewClient kid_param id_param tid body"
    unfolding KapacitorRulesPut_def Let_def
    by (simp add: same u split: sum.splits)
next
  fix req other
  assume "body = Inr req"
  then show "KapacitorRulesPut h NewClient kid_param id_param tid (Inr (req\<lparr>ID := other\<rparr>))
          = KapacitorRulesPut h NewClient kid_param id_param tid body"
    by (simp add: KapacitorRulesPut_def Let_def split: sum.splits)
next
  fix kid srv r0 req
  assume "kid_param = Inr kid \<and> id_param = Inr (SrcID srv) \<and> body = Inr req
        \<and> ServersStore_Get h kid = Inr srv
        \<and> Get_client (NewClient (URL_srv srv) (Username_srv srv) (Password_srv srv)) tid = Inr r0"
  then show "reply (KapacitorRulesPut h NewClient kid_param id_param tid body)
          = (case Update_client (NewClient (URL_srv srv) (Username_srv srv) (Password_srv srv))
                    (Href (NewClient (URL_srv srv) (Username_srv srv) (Password_srv srv)) tid)
                    (req\<lparr>ID := tid\<rparr>) of
               Inl err \<Rightarrow> Error 500 (Error_string err)
             | Inr task \<Rightarrow>
                 encodeJSON 200
                   (newAlertResponse (Rule task) (TICKScript_task task) (Href_task task)
                      (HrefOutput_task task) ''enabled'' (SrcID srv) (ID_srv srv)))"
    by (auto simp: KapacitorRulesPut_def Let_def split: sum.splits)
next
  fix href rule
  assume "Call_Update_client href rule
            \<in> set (calls (KapacitorRulesPut h NewClient kid_param id_param tid body))"
  then show "ID rule = tid"
    by (auto simp: KapacitorRulesPut_def respond_def Let_def split: sum.splits if_splits)
next
  fix kid srv r0 req
  assume "kid_param = Inr kid \<and> id_param = Inr (SrcID srv) \<and> body = Inr req
        \<and> ServersStore_Get h kid = Inr srv
        \<and> Get_client (NewClient (URL_srv srv) (Username_srv srv) (Password_srv srv)) tid = Inr r0"
  then show "calls (KapacitorRulesPut h NewClient kid_param id_param tid body)
          = [Call_Update_client
               (Href (NewClient (URL_srv srv) (Username_srv srv) (Password_srv srv)) tid)
               (req\<lparr>ID := tid\<rparr>)]"
    by (auto simp: KapacitorRulesPut_def Let_def split: sum.splits)
qed

theorem KapacitorRulesPut_sends_path_id_witness:
  "ServersStore_Get example_service 5 = Inr example_srv
   \<and> SrcID example_srv = 1
   \<and> Get_client example_client ''r1'' = Inr example_rule
   \<and> ID (mean_rule ''1m'') = ''r3''
   \<and> calls (KapacitorRulesPut example_service (\<lambda>url username password. example_client)
        (Inr 5) (Inr 1) ''r1'' (Inr (mean_rule ''1m'')))
       = [Call_Update_client ''/kapacitor/v1/tasks/r1'' ((mean_rule ''1m'')\<lparr>ID := ''r1''\<rparr>)]
   \<and> ID ((mean_rule ''1m'')\<lparr>ID := ''r1''\<rparr>) = ''r1''
   \<and> reply (KapacitorRulesPut example_service (\<lambda>url username password. example_client)
        (Inr 5) (Inr 1) ''r1'' (Inr (mean_rule ''1m'')))
       = encodeJSON 200
           (newAlertResponse ((mean_rule ''1m'')\<lparr>ID := ''r1''\<rparr>) ''''
              ''/kapacitor/v1/tasks/r1'' ''/kapacitor/v1/tasks/r1/output'' ''enabled'' 1 5)
   \<and> KapacitorRulesPut example_service (\<lambda>url username password. strict_client)
        (Inr 5) (Inr 1) ''r1'' (Inr (mean_rule ''1m''))
       = KapacitorRulesPut example_service (\<lambda>url username password. example_client)
           (Inr 5) (Inr 1) ''r1'' (Inr (mean_rule ''1m''))
   \<and> KapacitorRulesPut example_service (\<lambda>url username password. example_client)
        (Inr 5) (Inr 1) ''r1'' (Inr ((mean_rule ''1m'')\<lparr>ID := ''r9''\<rparr>))
       = KapacitorRulesPut example_service (\<lambda>url username password. example_client)
           (Inr 5) (Inr 1) ''r1'' (Inr (mean_rule ''1m''))"
proof -
  note T = KapacitorRulesPut_sends_path_id [of example_service
      "\<lambda>url username password. example_client" "Inr 5" "Inr 1" "''r1''" "Inr (mean_rule ''1m'')"]
  have a: "ServersStore_Get example_service 5 = Inr example_srv"
    by (simp add: example_service_def)
  have b: "SrcID example_srv = 1" "ID_srv example_srv = 5"
    by (simp_all add: example_srv_def)
  have g: "Get_client example_client ''r1'' = Inr example_rule"
    by (simp add: example_client_def)
  have i: "ID (mean_rule ''1m'') = ''r3''"
    by (simp add: mean_rule_def)
  have h: "Href example_client ''r1'' = ''/kapacitor/v1/tasks/r1''"
    by (simp add: example_client_def)
  have u: "Update_client example_client href rule
             = Inr \<lparr>Rule = rule, TICKScript_task = '''', Href_task = href,
                    HrefOutput_task = href @ ''/output''\<rparr>" for href rule
    by (simp add: example_client_def)
  have pre: "Inr 5 = (Inr 5 :: error + int) \<and> Inr 1 = (Inr (SrcID example_srv) :: error + int)
        \<and> Inr (mean_rule ''1m'') = (Inr (mean_rule ''1m'') :: error + AlertRule)
        \<and> ServersStore_Get example_service 5 = Inr example_srv
        \<and> Get_client example_client ''r1'' = Inr example_rule"
    using a b g by simp
  note R = T [THEN conjunct2, THEN conjunct1, THEN spec [of _ 5], THEN spec [of _ example_srv],
      THEN spec [of _ example_rule], THEN spec [of _ "mean_rule ''1m''"], THEN mp, OF pre]
  have 1: "calls (KapacitorRulesPut example_service (\<lambda>url username password. example_client)
        (Inr 5) (Inr 1) ''r1'' (Inr (mean_rule ''1m'')))
       = [Call_Update_client ''/kapacitor/v1/tasks/r1'' ((mean_rule ''1m'')\<lparr>ID := ''r1''\<rparr>)]"
    using R [THEN conjunct1] by (simp add: h)
  have 2: "ID ((mean_rule ''1m'')\<lparr>ID := ''r1''\<rparr>) = ''r1''"
    using T [THEN conjunct1, THEN spec [of _ "''/kapacitor/v1/tasks/r1''"],
        THEN spec [of _ "(mean_rule ''1m'')\<lparr>ID := ''r1''\<rparr>"]] 1
    by simp
  have 3: "reply (KapacitorRulesPut example_service (\<lambda>url username password. example_client)
        (Inr 5) (Inr 1) ''r1'' (Inr (mean_rule ''1m'')))
       = encodeJSON 200
           (newAlertResponse ((mean_rule ''1m'')\<lparr>ID := ''r1''\<rparr>) ''''
              ''/kapacitor/v1/tasks/r1'' ''/kapacitor/v1/tasks/r1/output'' ''enabled'' 1 5)"
    using R [THEN conjunct2] by (simp add: h u b)
  have same: "\<forall>url username password.
           Get_client ((\<lambda>url username password. strict_client) url username password)
             = Get_client ((\<lambda>url username password. example_client) url username password)
           \<and> Href ((\<lambda>url username password. strict_client) url username password)
             = Href ((\<lambda>url username password. example_client) url username password)
           \<and> (\<forall>href rule. ID rule = ''r1'' \<longrightarrow>
                 Update_client ((\<lambda>url username password. strict_client) url username password)
                     href rule
                   = Update_client ((\<lambda>url username password. example_client) url username
                       password) href rule)"
    by (simp add: strict_client_def)
  have 4: "KapacitorRulesPut example_service (\<lambda>url username password. strict_client)
        (Inr 5) (Inr 1) ''r1'' (Inr (mean_rule ''1m''))
       = KapacitorRulesPut example_service (\<lambda>url username password. example_client)
           (Inr 5) (Inr 1) ''r1'' (Inr (mean_rule ''1m''))"
    using T [THEN conjunct2, THEN conjunct2, THEN conjunct1,
        THEN spec [of _ "\<lambda>url username password. strict_client"], THEN mp, OF same] .
  have 5: "KapacitorRulesPut example_service (\<lambda>url username password. example_client)
        (Inr 5) (Inr 1) ''r1'' (Inr ((mean_rule ''1m'')\<lparr>ID := ''r9''\<rparr>))
       = KapacitorRulesPut example_service (\<lambda>url username password. example_client)
           (Inr 5) (Inr 1) ''r1'' (Inr (mean_rule ''1m''))"
    using T [THEN conjunct2, THEN conjunct2, THEN conjunct2,
        THEN spec [of _ "mean_rule ''1m''"], THEN spec [of _ "''r9''"]]
    by simp
  show ?thesis
    using a b(1) g i 1 2 3 4 5 by blast
qed

end
